theory Spec2Isabelle
  imports Complex_Main
begin

section \<open>Python values used by the analytics engine\<close>

text \<open>
  The engine (\<^verbatim>\<open>backend/services/ml/analytics_engine.py\<close>, class
  \<^verbatim>\<open>MLAnalyticsEngine\<close>) works on dictionaries, strings and floats.
  Exceptions become values of \<open>error\<close>; a function that can raise returns
  \<open>error + 'a\<close> with \<open>Inl\<close> for the exception.  A float is a \<open>real\<close>.
  In the risk scores and in the comparisons with a decimal threshold a real stands for
  the double nearest to it.  Where the third decimal or a comparison depends on the
  rounding of a double (the quotients of two lengths, the product in the trend test and
  \<^verbatim>\<open>round(x, 3)\<close>), the double is computed by \<open>to_double\<close>.
\<close>

datatype error =
    FileNotFoundError
  | UnpicklingError
  | PermissionError
  | OSError
  | NotFittedError
  | ValueError
  | IndexError
  | KeyError
  | AttributeError
  | TypeError

definition bind_err :: "error + 'a \<Rightarrow> ('a \<Rightarrow> error + 'b) \<Rightarrow> error + 'b" where
  "bind_err r f = (case r of Inl e \<Rightarrow> Inl e | Inr v \<Rightarrow> f v)"

text \<open>\<^verbatim>\<open>str.lower()\<close> on ASCII text.\<close>

definition lower_char :: "char \<Rightarrow> char" where
  "lower_char c =
     (case map_of (zip ''ABCDEFGHIJKLMNOPQRSTUVWXYZ'' ''abcdefghijklmnopqrstuvwxyz'') c of
        None \<Rightarrow> c
      | Some d \<Rightarrow> d)"

definition lower :: "string \<Rightarrow> string" where
  "lower s = map lower_char s"

text \<open>\<^verbatim>\<open>d.get(key, default)\<close> on a dictionary: an absent key is \<open>None\<close>.\<close>

definition get_or :: "'a \<Rightarrow> 'a option \<Rightarrow> 'a" where
  "get_or d x = (case x of None \<Rightarrow> d | Some v \<Rightarrow> v)"

text \<open>Truth value of \<^verbatim>\<open>d.get(key)\<close> for a boolean field: an absent key gives
  \<^verbatim>\<open>None\<close>, which is false.\<close>

definition truthy :: "bool option \<Rightarrow> bool" where
  "truthy x = (x = Some True)"

text \<open>Decimal rendering of integers, as \<^verbatim>\<open>str(n)\<close> and f-strings do.\<close>

fun digits :: "nat \<Rightarrow> string" where
  "digits n =
     (if n < 10 then [''0123456789'' ! n]
      else digits (n div 10) @ [''0123456789'' ! (n mod 10)])"

declare digits.simps [simp del]

definition str_of_int :: "int \<Rightarrow> string" where
  "str_of_int i = (if i < 0 then ''-'' @ digits (nat (- i)) else digits (nat i))"

text \<open>Rounding to the nearest integer, ties to the even neighbour (Python's
  \<^verbatim>\<open>round\<close> and the \<^verbatim>\<open>.0f\<close> format), on exact values.\<close>

definition round_half_even :: "real \<Rightarrow> int" where
  "round_half_even x =
     (let f = \<lfloor>x\<rfloor>; d = x - of_int f
      in if d < 1 / 2 then f
         else if 1 / 2 < d then f + 1
         else if even f then f else f + 1)"

text \<open>
  The double nearest to a real, ties to the even mantissa: the binary exponent \<open>e\<close> of
  \<open>x\<close> has \<open>2 ^ e \<le> x < 2 ^ (e + 1)\<close>, and \<open>x\<close> is rounded to a multiple of
  \<open>2 ^ (e - 52)\<close> (of \<open>2 ^ (- 1074)\<close> for a subnormal).  Overflow to infinity is not
  modelled; no value of the engine is near it.
\<close>

function halvings :: "real \<Rightarrow> nat" where
  "halvings x = (if x < 2 then 0 else Suc (halvings (x / 2)))"
  by pat_completeness auto
termination
proof (relation "measure (\<lambda>x. nat \<lfloor>x\<rfloor>)")
  show "wf (measure (\<lambda>x. nat \<lfloor>x\<rfloor>))" by simp
next
  fix x :: real
  assume "\<not> x < 2"
  then have "\<lfloor>x / 2\<rfloor> < \<lfloor>x\<rfloor>" "0 < \<lfloor>x\<rfloor>"
    by linarith+
  then show "(x / 2, x) \<in> measure (\<lambda>x. nat \<lfloor>x\<rfloor>)"
    by simp
qed

function doublings :: "real \<Rightarrow> nat" where
  "doublings x = (if x \<le> 0 \<or> 1 \<le> x then 0 else Suc (doublings (2 * x)))"
  by pat_completeness auto
termination
proof (relation "measure (\<lambda>x. nat \<lfloor>1 / x\<rfloor>)")
  show "wf (measure (\<lambda>x. nat \<lfloor>1 / x\<rfloor>))" by simp
next
  fix x :: real
  assume "\<not> (x \<le> 0 \<or> 1 \<le> x)"
  then have x: "0 < x" "x < 1" by simp_all
  define y where "y = 1 / x"
  have y1: "1 < y"
    using x by (simp add: y_def)
  have A: "\<lfloor>y / 2\<rfloor> < \<lfloor>y\<rfloor>"
  proof (cases "y < 2")
    case True
    with y1 have "\<lfloor>y / 2\<rfloor> = 0" "\<lfloor>y\<rfloor> = 1"
      by (simp_all add: floor_eq_iff)
    then show ?thesis by simp
  next
    case False
    then show ?thesis by linarith
  qed
  have B: "0 < \<lfloor>y\<rfloor>"
    using y1 by simp
  have eq: "1 / (2 * x) = y / 2"
    by (simp add: y_def)
  have "nat \<lfloor>1 / (2 * x)\<rfloor> < nat \<lfloor>y\<rfloor>"
    unfolding eq using A B by linarith
  then show "(2 * x, x) \<in> measure (\<lambda>x. nat \<lfloor>1 / x\<rfloor>)"
    unfolding y_def by simp
qed

declare halvings.simps [simp del] doublings.simps [simp del]

definition binary_exponent :: "real \<Rightarrow> int" where
  "binary_exponent x = (if 1 \<le> x then int (halvings x) else - int (doublings x))"

definition pow2 :: "int \<Rightarrow> real" where
  "pow2 e = (if 0 \<le> e then 2 ^ nat e else 1 / 2 ^ nat (- e))"

definition to_double :: "real \<Rightarrow> real" where
  "to_double x =
     (if x = 0 then 0
      else let e = binary_exponent \<bar>x\<bar>;
               u = pow2 (max e (- 1022) - 52)
           in of_int (round_half_even (x / u)) * u)"

text \<open>\<^verbatim>\<open>k / n\<close> on two lengths: the double nearest to the quotient.\<close>

definition float_div :: "nat \<Rightarrow> nat \<Rightarrow> real" where
  "float_div k n = to_double (of_nat k / of_nat n)"

text \<open>\<^verbatim>\<open>round(x, 3)\<close> on a double \<open>x\<close>: its exact value is rounded to three
  decimals, ties to even; the decimal stands for the double nearest to it.\<close>

definition round3 :: "real \<Rightarrow> real" where
  "round3 x = of_int (round_half_even (x * 1000)) / 1000"

definition fmt0f :: "real \<Rightarrow> string" where
  "fmt0f x =
     (let r = round_half_even x
      in if x < 0 \<and> r = 0 then ''-0'' else str_of_int r)"

text \<open>\<^verbatim>\<open>'; '.join(parts)\<close>.\<close>

fun join :: "string \<Rightarrow> string list \<Rightarrow> string" where
  "join sep [] = []"
| "join sep [x] = x"
| "join sep (x # y # ys) = x @ sep @ join sep (y # ys)"

section \<open>Event records\<close>

text \<open>
  An event is a dictionary; every key may be absent (\<open>None\<close>).  The value of
  \<^verbatim>\<open>event_date\<close> is handed to \<^verbatim>\<open>pandas.to_datetime\<close>: it is either a
  value that pandas converts to an instant without a UTC offset (\<open>Timestamp t\<close>,
  \<open>t\<close> in microseconds), a value that it converts to an instant with a UTC offset
  (\<open>Aware t\<close>), or a text that it cannot parse (\<open>Unparsable s\<close>, for which the
  conversion raises).
  The types exclude ill-typed values (a severity that is not a string, an age that is not
  a number).
\<close>

datatype date_value = Timestamp int | Aware int | Unparsable string

record event =
  ev_id :: "string option"
  medicine_name :: "string option"
  severity :: "string option"
  outcome :: "string option"
  patient_age :: "int option"
  required_hospitalization :: "bool option"
  life_threatening :: "bool option"
  symptoms :: "string list option"
  concurrent_medications :: "string list option"
  has_allergies :: "bool option"
  event_date :: "date_value option"

section \<open>Feature encoders\<close>

definition encode_severity :: "string \<Rightarrow> int" where
  "encode_severity s =
     (case map_of [(''mild'', 1), (''moderate'', 2), (''severe'', 3), (''life_threatening'', 4)]
             (lower s) of
        None \<Rightarrow> 2
      | Some v \<Rightarrow> v)"

definition encode_outcome :: "string \<Rightarrow> int" where
  "encode_outcome s =
     (case map_of [(''recovered'', 1), (''recovering'', 2), (''not_recovered'', 3),
                   (''death'', 4), (''unknown'', 0)] (lower s) of
        None \<Rightarrow> 0
      | Some v \<Rightarrow> v)"

definition encode_age_group :: "int \<Rightarrow> int" where
  "encode_age_group age = (if age < 18 then 1 else if age < 65 then 2 else 3)"

section \<open>Safety-signal tiers\<close>

definition classify_signal_type :: "real \<Rightarrow> real \<Rightarrow> real \<Rightarrow> real \<Rightarrow> string" where
  "classify_signal_type severe_rate hosp_rate death_rate recent_rate =
     (if death_rate > 0.02 then ''critical''
      else if hosp_rate > 0.15 \<or> recent_rate > 0.3 then ''high''
      else if severe_rate > 0.20 then ''moderate''
      else ''low'')"

definition generate_signal_recommendation :: "string \<Rightarrow> string" where
  "generate_signal_recommendation signal_type =
     (case map_of
        [(''critical'',
          ''URGENT: Consider immediate recall or suspension. Convene safety review committee.''),
         (''high'',
          ''HIGH PRIORITY: Detailed investigation required. Consider risk mitigation measures.''),
         (''moderate'',
          ''MODERATE: Monitor closely. Review product labeling and prescribing information.''),
         (''low'',
          ''LOW: Continue monitoring. Consider additional post-market surveillance.'')]
        signal_type of
        None \<Rightarrow> ''Review and monitor.''
      | Some r \<Rightarrow> r)"

section \<open>Rule-based risk score\<close>

definition calculate_rule_based_risk :: "event \<Rightarrow> real" where
  "calculate_rule_based_risk event_data =
     (let score0 = 0;
          sev = lower (get_or ''mild'' (severity event_data));
          score1 = (if sev = ''life_threatening'' then score0 + 0.4
                    else if sev = ''severe'' then score0 + 0.3
                    else if sev = ''moderate'' then score0 + 0.15
                    else score0);
          score2 = (if truthy (required_hospitalization event_data) then score1 + 0.25
                    else score1);
          score3 = (if truthy (life_threatening event_data) then score2 + 0.2 else score2);
          age = get_or 0 (patient_age event_data);
          score4 = (if age < 5 \<or> age > 75 then score3 + 0.1 else score3);
          score5 = (if length (get_or [] (symptoms event_data)) > 5 then score4 + 0.1
                    else score4)
      in min score5 1.0)"

definition classify_risk_level :: "real \<Rightarrow> string" where
  "classify_risk_level risk_score =
     (if risk_score \<ge> 0.7 then ''critical''
      else if risk_score \<ge> 0.5 then ''high''
      else if risk_score \<ge> 0.3 then ''moderate''
      else ''low'')"

definition generate_risk_recommendations :: "real \<Rightarrow> string list" where
  "generate_risk_recommendations risk_score =
     (if risk_score \<ge> 0.7 then
        [''Immediate medical attention required'',
         ''Consider hospitalization'',
         ''Report to regulatory authority urgently'',
         ''Document all symptoms and interventions'']
      else if risk_score \<ge> 0.5 then
        [''Close medical monitoring required'',
         ''Consider discontinuing medication'',
         ''Report to healthcare provider promptly'',
         ''Document progression of symptoms'']
      else if risk_score \<ge> 0.3 then
        [''Monitor symptoms closely'',
         ''Contact healthcare provider if symptoms worsen'',
         ''Report event to regulatory authority'',
         ''Keep detailed symptom diary'']
      else
        [''Continue monitoring'',
         ''Report if symptoms persist or worsen'',
         ''Document event details''])"

text \<open>
  The contributions as the specification lists them, one per qualifying condition, and
  their clamped sum.
\<close>

definition severity_points :: "event \<Rightarrow> real" where
  "severity_points e =
     (let s = lower (get_or ''mild'' (severity e))
      in if s = ''life_threatening'' then 0.4
         else if s = ''severe'' then 0.3
         else if s = ''moderate'' then 0.15
         else 0)"

definition hospitalization_points :: "event \<Rightarrow> real" where
  "hospitalization_points e = (if required_hospitalization e = Some True then 0.25 else 0)"

definition life_threatening_points :: "event \<Rightarrow> real" where
  "life_threatening_points e = (if life_threatening e = Some True then 0.2 else 0)"

definition age_points :: "event \<Rightarrow> real" where
  "age_points e = (if get_or 0 (patient_age e) < 5 \<or> get_or 0 (patient_age e) > 75 then 0.1 else 0)"

definition symptom_points :: "event \<Rightarrow> real" where
  "symptom_points e = (if length (get_or [] (symptoms e)) > 5 then 0.1 else 0)"

definition spec_rule_score :: "event \<Rightarrow> real" where
  "spec_rule_score e =
     max 0 (min 1 (severity_points e + hospitalization_points e + life_threatening_points e
                   + age_points e + symptom_points e))"

section \<open>Feature matrices and the scikit-learn estimators\<close>

text \<open>
  A feature is a float; \<open>NaN\<close> is the float that pandas puts in a cell whose key the
  event lacks.  The numerical content of the estimators (the statistics of
  \<^verbatim>\<open>StandardScaler\<close>, the labels of \<^verbatim>\<open>DBSCAN\<close>, the trees of
  \<^verbatim>\<open>IsolationForest\<close> and \<^verbatim>\<open>RandomForestClassifier\<close>) is not in the
  repository: it is the parameter \<open>sk\<close> of every engine operation.  What the estimators
  do around it is modelled: an estimator is fitted or not, it remembers the number of
  columns it was fitted on, and \<^verbatim>\<open>predict_proba\<close> returns one probability per class
  seen in the training labels.
\<close>

datatype feature = Num real | NaN

type_synonym matrix = "feature list list"

record sklearn =
  scaler_stats :: "feature list \<Rightarrow> real \<times> real"
  dbscan_fit_predict :: "matrix \<Rightarrow> error + int list"
  iforest_fit_error :: "matrix \<Rightarrow> error option"
  iforest_predict :: "matrix \<Rightarrow> matrix \<Rightarrow> int list"
  iforest_score_samples :: "matrix \<Rightarrow> matrix \<Rightarrow> real list"
  forest_fit_error :: "matrix \<Rightarrow> bool list \<Rightarrow> error option"
  forest_proba :: "matrix \<Rightarrow> bool list \<Rightarrow> feature list \<Rightarrow> real"

text \<open>Indexing a list: \<^verbatim>\<open>xs[i]\<close> raises \<^verbatim>\<open>IndexError\<close> out of range.\<close>

definition index :: "'a list \<Rightarrow> nat \<Rightarrow> error + 'a" where
  "index xs i = (if i < length xs then Inr (xs ! i) else Inl IndexError)"

fun map_err :: "('a \<Rightarrow> error + 'b) \<Rightarrow> 'a list \<Rightarrow> error + 'b list" where
  "map_err f [] = Inr []"
| "map_err f (x # xs) =
     (case f x of
        Inl e \<Rightarrow> Inl e
      | Inr y \<Rightarrow> (case map_err f xs of Inl e \<Rightarrow> Inl e | Inr ys \<Rightarrow> Inr (y # ys)))"

subsection \<open>StandardScaler\<close>

record scaler_params =
  n_features_in :: nat
  mean_of :: "real list"
  scale_of :: "real list"

text \<open>\<open>None\<close> is the scaler that was never fitted (\<^verbatim>\<open>StandardScaler()\<close>).\<close>

type_synonym scaler = "scaler_params option"

definition columns :: "nat \<Rightarrow> matrix \<Rightarrow> feature list list" where
  "columns n X = map (\<lambda>j. map (\<lambda>row. row ! j) X) [0..<n]"

definition scale_value :: "feature \<times> real \<times> real \<Rightarrow> feature" where
  "scale_value c = (case c of (NaN, m, s) \<Rightarrow> NaN | (Num x, m, s) \<Rightarrow> Num ((x - m) / s))"

definition scaler_transform :: "scaler \<Rightarrow> matrix \<Rightarrow> error + matrix" where
  "scaler_transform sc X =
     (case sc of
        None \<Rightarrow> Inl NotFittedError
      | Some p \<Rightarrow>
          if list_all (\<lambda>row. length row = n_features_in p) X
          then Inr (map (\<lambda>row. map scale_value (zip row (zip (mean_of p) (scale_of p)))) X)
          else Inl ValueError)"

definition scaler_fit :: "sklearn \<Rightarrow> matrix \<Rightarrow> error + scaler_params" where
  "scaler_fit sk X =
     (case X of
        [] \<Rightarrow> Inl ValueError
      | row # _ \<Rightarrow>
          let n = length row
          in if n = 0 \<or> \<not> list_all (\<lambda>r. length r = n) X then Inl ValueError
             else let stats = map (scaler_stats sk) (columns n X)
                  in Inr \<lparr>n_features_in = n, mean_of = map fst stats, scale_of = map snd stats\<rparr>)"

definition scaler_fit_transform :: "sklearn \<Rightarrow> matrix \<Rightarrow> error + (matrix \<times> scaler)" where
  "scaler_fit_transform sk X =
     bind_err (scaler_fit sk X) (\<lambda>p.
     bind_err (scaler_transform (Some p) X) (\<lambda>Xn.
     Inr (Xn, Some p)))"

subsection \<open>IsolationForest\<close>

datatype iforest = IForestUnfitted | IForestFitted matrix

definition iforest_fit :: "sklearn \<Rightarrow> matrix \<Rightarrow> error + iforest" where
  "iforest_fit sk X =
     (case iforest_fit_error sk X of Some e \<Rightarrow> Inl e | None \<Rightarrow> Inr (IForestFitted X))"

definition iforest_fit_predict :: "sklearn \<Rightarrow> matrix \<Rightarrow> error + (int list \<times> iforest)" where
  "iforest_fit_predict sk X =
     bind_err (iforest_fit sk X) (\<lambda>m. Inr (iforest_predict sk X X, m))"

definition score_samples :: "sklearn \<Rightarrow> iforest \<Rightarrow> matrix \<Rightarrow> error + real list" where
  "score_samples sk m X =
     (case m of
        IForestUnfitted \<Rightarrow> Inl NotFittedError
      | IForestFitted T \<Rightarrow> Inr (iforest_score_samples sk T X))"

subsection \<open>RandomForestClassifier\<close>

text \<open>
  The training labels are the booleans of \<^verbatim>\<open>train_models\<close> cast to 0 and 1.
  A fitted classifier keeps its number of columns and its training set.  Its
  \<^verbatim>\<open>predict_proba\<close> has one column per class present in the labels: two columns
  (class 0, class 1) when both occur, a single column otherwise.
\<close>

datatype classifier = ClassifierUnfitted | ClassifierFitted nat matrix "bool list"

definition classifier_fit :: "sklearn \<Rightarrow> matrix \<Rightarrow> bool list \<Rightarrow> error + classifier" where
  "classifier_fit sk X y =
     (case X of
        [] \<Rightarrow> Inl ValueError
      | row # _ \<Rightarrow>
          if length X \<noteq> length y then Inl ValueError
          else (case forest_fit_error sk X y of
                  Some e \<Rightarrow> Inl e
                | None \<Rightarrow> Inr (ClassifierFitted (length row) X y)))"

definition class_probabilities :: "sklearn \<Rightarrow> matrix \<Rightarrow> bool list \<Rightarrow> feature list \<Rightarrow> real list" where
  "class_probabilities sk T y row =
     (if list_ex (\<lambda>b. b) y \<and> list_ex (\<lambda>b. \<not> b) y
      then [1 - forest_proba sk T y row, forest_proba sk T y row]
      else [1])"

definition predict_proba :: "sklearn \<Rightarrow> classifier \<Rightarrow> matrix \<Rightarrow> error + real list list" where
  "predict_proba sk clf X =
     (case clf of
        ClassifierUnfitted \<Rightarrow> Inl NotFittedError
      | ClassifierFitted n T y \<Rightarrow>
          if list_all (\<lambda>row. length row = n) X
          then Inr (map (class_probabilities sk T y) X)
          else Inl ValueError)"

definition predicted_class :: "bool list \<Rightarrow> real list \<Rightarrow> bool" where
  "predicted_class y probs =
     (case probs of
        [p0, p1] \<Rightarrow> p0 < p1
      | _ \<Rightarrow> list_ex (\<lambda>b. b) y)"

definition classifier_score :: "sklearn \<Rightarrow> classifier \<Rightarrow> matrix \<Rightarrow> bool list \<Rightarrow> error + real" where
  "classifier_score sk clf X y =
     bind_err (predict_proba sk clf X) (\<lambda>P.
       Inr (of_nat (length (filter (\<lambda>(probs, label). predicted_class y probs = label) (zip P y)))
            / of_nat (length y)))"

section \<open>The engine and its persisted models\<close>

text \<open>
  The three files under \<^verbatim>\<open>models/\<close>.  \<^verbatim>\<open>joblib.load\<close> raises
  \<^verbatim>\<open>FileNotFoundError\<close> on an absent file, a permission error on an unreadable
  one and an unpickling error on a corrupt one.  \<open>dump_error\<close> is the fault that
  \<^verbatim>\<open>joblib.dump\<close> meets when it writes (none when the directory is writable).
\<close>

datatype 'a artifact = Absent | Unreadable | Corrupt | Stored 'a

record model_store =
  anomaly_detector_pkl :: "iforest artifact"
  risk_classifier_pkl :: "classifier artifact"
  scaler_pkl :: "scaler artifact"
  dump_error :: "error option"

record engine =
  anomaly_detector :: "iforest option"
  risk_classifier :: "classifier option"
  scaler :: scaler

definition joblib_load :: "'a artifact \<Rightarrow> error + 'a" where
  "joblib_load a =
     (case a of
        Absent \<Rightarrow> Inl FileNotFoundError
      | Unreadable \<Rightarrow> Inl PermissionError
      | Corrupt \<Rightarrow> Inl UnpicklingError
      | Stored v \<Rightarrow> Inr v)"

definition joblib_dump :: "model_store \<Rightarrow> (model_store \<Rightarrow> model_store) \<Rightarrow> error + model_store" where
  "joblib_dump st write = (case dump_error st of Some e \<Rightarrow> Inl e | None \<Rightarrow> Inr (write st))"

definition initialize_models :: "engine \<Rightarrow> engine" where
  "initialize_models eng =
     eng\<lparr>anomaly_detector := Some IForestUnfitted, risk_classifier := Some ClassifierUnfitted\<rparr>"

text \<open>The body of the \<^verbatim>\<open>try\<close> of \<^verbatim>\<open>load_models\<close>: the state reached, and the
  exception that stopped it, if any.\<close>

definition try_load :: "model_store \<Rightarrow> engine \<Rightarrow> engine \<times> error option" where
  "try_load st eng =
     (case joblib_load (anomaly_detector_pkl st) of
        Inl e \<Rightarrow> (eng, Some e)
      | Inr a \<Rightarrow>
          let eng1 = eng\<lparr>anomaly_detector := Some a\<rparr>
          in (case joblib_load (risk_classifier_pkl st) of
                Inl e \<Rightarrow> (eng1, Some e)
              | Inr c \<Rightarrow>
                  let eng2 = eng1\<lparr>risk_classifier := Some c\<rparr>
                  in (case joblib_load (scaler_pkl st) of
                        Inl e \<Rightarrow> (eng2, Some e)
                      | Inr s \<Rightarrow> (eng2\<lparr>scaler := s\<rparr>, None))))"

definition load_models :: "model_store \<Rightarrow> engine \<Rightarrow> error + engine" where
  "load_models st eng =
     (case try_load st eng of
        (eng', None) \<Rightarrow> Inr eng'
      | (eng', Some e) \<Rightarrow>
          if e = FileNotFoundError then Inr (initialize_models eng') else Inl e)"

text \<open>\<^verbatim>\<open>MLAnalyticsEngine()\<close>: the constructor.\<close>

definition init_engine :: "model_store \<Rightarrow> error + engine" where
  "init_engine st =
     load_models st \<lparr>anomaly_detector = None, risk_classifier = None, scaler = None\<rparr>"

section \<open>Feature extraction from a DataFrame\<close>

text \<open>
  \<^verbatim>\<open>pd.DataFrame(events)\<close> has one column per key that occurs in some event; a row
  whose event lacks the key holds NaN in that column.  \<^verbatim>\<open>row.get(key, default)\<close>
  therefore gives the default only when no event of the batch has the key
  (\<open>NoColumn\<close>), NaN when some other event has it (\<open>NaNCell\<close>), and the value
  otherwise.
\<close>

datatype 'a cell = NoColumn | NaNCell | Cell 'a

definition has_column :: "(event \<Rightarrow> 'a option) \<Rightarrow> event list \<Rightarrow> bool" where
  "has_column f df = list_ex (\<lambda>e. case f e of None \<Rightarrow> False | Some _ \<Rightarrow> True) df"

definition row_get :: "event list \<Rightarrow> (event \<Rightarrow> 'a option) \<Rightarrow> event \<Rightarrow> 'a cell" where
  "row_get df f row =
     (case f row of
        Some v \<Rightarrow> Cell v
      | None \<Rightarrow> if has_column f df then NaNCell else NoColumn)"

text \<open>\<^verbatim>\<open>(datetime.now() - t).days\<close>: whole days, rounded down; instants are in
  microseconds.\<close>

definition days_since :: "int \<Rightarrow> int \<Rightarrow> int" where
  "days_since now t = (now - t) div 86400000000"

text \<open>
  One row of \<^verbatim>\<open>_extract_event_features\<close>, its entries evaluated in the order of
  the source.  On NaN: \<^verbatim>\<open>.lower()\<close> raises \<^verbatim>\<open>AttributeError\<close>,
  \<^verbatim>\<open>len\<close> raises \<^verbatim>\<open>TypeError\<close>, both age comparisons are false (group 3),
  NaN is true as a condition, and \<^verbatim>\<open>pd.to_datetime\<close> gives \<^verbatim>\<open>NaT\<close>, whose
  difference with a date is \<^verbatim>\<open>NaT\<close> and whose \<^verbatim>\<open>.days\<close> is NaN.  A date
  with a UTC offset cannot be subtracted from \<^verbatim>\<open>datetime.now()\<close>, which has none:
  \<^verbatim>\<open>TypeError\<close>.

  Two behaviours of pandas are not fixed by the repository and are the parameter
  \<open>pd\<close>.  With no \<^verbatim>\<open>event_date\<close> column the row gives \<^verbatim>\<open>None\<close>, and
  \<open>no_date_days\<close> is what \<^verbatim>\<open>(datetime.now() - pd.to_datetime(None)).days\<close> does:
  before pandas 3 the conversion returns \<^verbatim>\<open>None\<close> and the subtraction raises
  \<^verbatim>\<open>TypeError\<close>, from pandas 3 on it returns \<^verbatim>\<open>NaT\<close> and the value is NaN.
  \<open>aware_column_error\<close> is the exception that signal detection meets on a column
  holding dates with a UTC offset (raised by the conversion of the column or by its
  comparison with a date without offset).
\<close>

record pandas =
  no_date_days :: "error + feature"
  aware_column_error :: error

definition severity_code :: "string cell \<Rightarrow> error + int" where
  "severity_code c =
     (case c of
        NoColumn \<Rightarrow> Inr (encode_severity ''mild'')
      | NaNCell \<Rightarrow> Inl AttributeError
      | Cell s \<Rightarrow> Inr (encode_severity s))"

definition outcome_code :: "string cell \<Rightarrow> error + int" where
  "outcome_code c =
     (case c of
        NoColumn \<Rightarrow> Inr (encode_outcome ''unknown'')
      | NaNCell \<Rightarrow> Inl AttributeError
      | Cell s \<Rightarrow> Inr (encode_outcome s))"

definition age_group_code :: "int cell \<Rightarrow> int" where
  "age_group_code c =
     (case c of
        NoColumn \<Rightarrow> encode_age_group 0
      | NaNCell \<Rightarrow> 3
      | Cell a \<Rightarrow> encode_age_group a)"

definition flag_code :: "bool cell \<Rightarrow> int" where
  "flag_code c =
     (case c of
        NoColumn \<Rightarrow> 0
      | NaNCell \<Rightarrow> 1
      | Cell b \<Rightarrow> if b then 1 else 0)"

definition symptom_count :: "string list cell \<Rightarrow> error + nat" where
  "symptom_count c =
     (case c of
        NoColumn \<Rightarrow> Inr 0
      | NaNCell \<Rightarrow> Inl TypeError
      | Cell ss \<Rightarrow> Inr (length ss))"

definition days_since_event :: "pandas \<Rightarrow> int \<Rightarrow> date_value cell \<Rightarrow> error + feature" where
  "days_since_event pd now c =
     (case c of
        NoColumn \<Rightarrow> no_date_days pd
      | NaNCell \<Rightarrow> Inr NaN
      | Cell (Unparsable s) \<Rightarrow> Inl ValueError
      | Cell (Aware t) \<Rightarrow> Inl TypeError
      | Cell (Timestamp t) \<Rightarrow> Inr (Num (of_int (days_since now t))))"

definition extract_row :: "pandas \<Rightarrow> int \<Rightarrow> event list \<Rightarrow> event \<Rightarrow> error + feature list" where
  "extract_row pd now df row =
     bind_err (severity_code (row_get df severity row)) (\<lambda>sev.
     bind_err (outcome_code (row_get df outcome row)) (\<lambda>out.
     let age_group = age_group_code (row_get df patient_age row);
         hosp = flag_code (row_get df required_hospitalization row);
         lt = flag_code (row_get df life_threatening row)
     in
     bind_err (symptom_count (row_get df symptoms row)) (\<lambda>n.
     bind_err (days_since_event pd now (row_get df event_date row)) (\<lambda>days.
     Inr [Num (of_int sev), Num (of_int out), Num (of_int age_group), Num (of_int hosp),
          Num (of_int lt), Num (of_nat n), days]))))"

definition extract_event_features :: "pandas \<Rightarrow> int \<Rightarrow> event list \<Rightarrow> error + matrix" where
  "extract_event_features pd now df = map_err (extract_row pd now df) df"

section \<open>Risk prediction\<close>

record risk_assessment =
  risk_score :: real
  risk_level :: string
  confidence :: "real option"
  scoring_method :: "string option"
  recommendations :: "string list"

definition risk_features :: "event \<Rightarrow> feature list" where
  "risk_features event_data =
     [Num (of_int (encode_severity (get_or ''mild'' (severity event_data)))),
      Num (of_int (encode_age_group (get_or 0 (patient_age event_data)))),
      Num (if truthy (required_hospitalization event_data) then 1 else 0),
      Num (if truthy (life_threatening event_data) then 1 else 0),
      Num (of_nat (length (get_or [] (symptoms event_data)))),
      Num (of_nat (length (get_or [] (concurrent_medications event_data)))),
      Num (if truthy (has_allergies event_data) then 1 else 0)]"

fun list_max :: "real list \<Rightarrow> error + real" where
  "list_max [] = Inl ValueError"
| "list_max (x # xs) = Inr (fold max xs x)"

text \<open>The body of the \<^verbatim>\<open>try\<close> of \<^verbatim>\<open>predict_risk_score\<close>.\<close>

definition ml_risk :: "sklearn \<Rightarrow> engine \<Rightarrow> matrix \<Rightarrow> error + risk_assessment" where
  "ml_risk sk eng features_normalized =
     bind_err (case risk_classifier eng of
                 None \<Rightarrow> Inl AttributeError
               | Some clf \<Rightarrow> predict_proba sk clf features_normalized) (\<lambda>P.
     bind_err (index P 0) (\<lambda>risk_probability.
     bind_err (index risk_probability 1) (\<lambda>score.
     bind_err (list_max risk_probability) (\<lambda>top.
     Inr \<lparr>risk_score = round3 score,
          risk_level = classify_risk_level score,
          confidence = Some (round3 top),
          scoring_method = None,
          recommendations = generate_risk_recommendations score\<rparr>))))"

text \<open>The \<^verbatim>\<open>except\<close> branch.\<close>

definition rule_based_assessment :: "event \<Rightarrow> risk_assessment" where
  "rule_based_assessment event_data =
     (let rule_based_score = calculate_rule_based_risk event_data
      in \<lparr>risk_score = rule_based_score,
          risk_level = classify_risk_level rule_based_score,
          confidence = None,
          scoring_method = Some ''rule_based'',
          recommendations = generate_risk_recommendations rule_based_score\<rparr>)"

text \<open>The normalisation stands before the \<^verbatim>\<open>try\<close>: its exception leaves the
  function.  The bare \<^verbatim>\<open>except\<close> catches every exception of the body.\<close>

definition predict_risk_score :: "sklearn \<Rightarrow> engine \<Rightarrow> event \<Rightarrow> error + risk_assessment" where
  "predict_risk_score sk eng event_data =
     bind_err (scaler_transform (scaler eng) [risk_features event_data]) (\<lambda>features_normalized.
       case ml_risk sk eng features_normalized of
         Inl _ \<Rightarrow> Inr (rule_based_assessment event_data)
       | Inr r \<Rightarrow> Inr r)"

section \<open>Training\<close>

record training_summary =
  training_samples :: nat
  anomaly_detector_trained :: bool
  risk_classifier_trained :: bool
  risk_classifier_accuracy :: real

text \<open>The labels: \<^verbatim>\<open>df['severity']\<close> and \<^verbatim>\<open>df['required_hospitalization']\<close>
  raise \<^verbatim>\<open>KeyError\<close> when the column does not exist; the comparisons are exact
  (no \<^verbatim>\<open>lower\<close>) and false on NaN.\<close>

definition risk_labels :: "event list \<Rightarrow> error + bool list" where
  "risk_labels df =
     (if \<not> has_column severity df then Inl KeyError
      else if \<not> has_column required_hospitalization df then Inl KeyError
      else Inr (map (\<lambda>e. severity e = Some ''severe'' \<or> severity e = Some ''life_threatening''
                          \<or> required_hospitalization e = Some True) df))"

definition train_models ::
  "sklearn \<Rightarrow> pandas \<Rightarrow> int \<Rightarrow> model_store \<Rightarrow> engine \<Rightarrow> event list
     \<Rightarrow> error + (training_summary \<times> engine \<times> model_store)" where
  "train_models sk pd now st eng training_data =
     bind_err (extract_event_features pd now training_data) (\<lambda>X.
     bind_err (risk_labels training_data) (\<lambda>y.
     bind_err (scaler_fit_transform sk X) (\<lambda>(X_normalized, sc).
     bind_err (case anomaly_detector eng of
                 None \<Rightarrow> Inl AttributeError
               | Some _ \<Rightarrow> iforest_fit sk X_normalized) (\<lambda>det.
     bind_err (case risk_classifier eng of
                 None \<Rightarrow> Inl AttributeError
               | Some _ \<Rightarrow> classifier_fit sk X_normalized y) (\<lambda>clf.
     bind_err (joblib_dump st (\<lambda>s. s\<lparr>anomaly_detector_pkl := Stored det\<rparr>)) (\<lambda>st1.
     bind_err (joblib_dump st1 (\<lambda>s. s\<lparr>risk_classifier_pkl := Stored clf\<rparr>)) (\<lambda>st2.
     bind_err (joblib_dump st2 (\<lambda>s. s\<lparr>scaler_pkl := Stored sc\<rparr>)) (\<lambda>st3.
     bind_err (classifier_score sk clf X_normalized y) (\<lambda>acc.
     Inr (\<lparr>training_samples = length training_data,
           anomaly_detector_trained = True,
           risk_classifier_trained = True,
           risk_classifier_accuracy = acc\<rparr>,
          \<lparr>anomaly_detector = Some det, risk_classifier = Some clf, scaler = sc\<rparr>,
          st3))))))))))"

section \<open>Anomaly detection\<close>

record anomaly =
  event_id :: "string option"
  anom_medicine_name :: "string option"
  anom_severity :: "string option"
  anomaly_score :: real
  reason :: string

text \<open>The result dictionary: the insufficient-data shape has only \<open>anomalies\<close> and
  the message; the full report has the other keys.\<close>

record anomaly_report =
  anomalies :: "anomaly list"
  anom_message :: "string option"
  total_events :: "nat option"
  anomalies_detected :: "nat option"
  anomaly_rate :: "real option"
  anom_timestamp :: "int option"

text \<open>\<^verbatim>\<open>all_events['patient_age'].mean()\<close>: the mean of the ages present.\<close>

definition mean_age :: "event list \<Rightarrow> real" where
  "mean_age df =
     (let ages = concat (map (\<lambda>e. case patient_age e of None \<Rightarrow> [] | Some a \<Rightarrow> [a]) df)
      in of_int (sum_list ages) / of_nat (length ages))"

text \<open>\<^verbatim>\<open>if event.get('patient_age')\<close> is false for an absent age and for age 0.\<close>

definition explain_anomaly :: "event \<Rightarrow> event list \<Rightarrow> string" where
  "explain_anomaly ev all_events =
     (let reasons1 =
            (case patient_age ev of
               None \<Rightarrow> []
             | Some age \<Rightarrow>
                 if age = 0 then []
                 else let avg_age = mean_age all_events
                      in if \<bar>of_int age - avg_age\<bar> > 20
                         then [''Unusual age ('' @ str_of_int age @ '' vs avg ''
                               @ fmt0f avg_age @ '')'']
                         else []);
          sev = lower (get_or [] (severity ev));
          reasons2 = reasons1 @ (if sev = ''life_threatening''
                                 then [''Life-threatening severity''] else []);
          reasons3 = reasons2 @ (if outcome ev = Some ''death'' then [''Fatal outcome''] else []);
          n = length (get_or [] (symptoms ev));
          reasons4 = reasons3 @ (if n > 8
                                 then [''High number of symptoms ('' @ str_of_int (int n) @ '')'']
                                 else [])
      in if reasons4 \<noteq> [] then join ''; '' reasons4 else ''Statistical outlier'')"

text \<open>The loop over \<^verbatim>\<open>enumerate(zip(predictions, anomaly_scores))\<close>.\<close>

fun collect_anomalies :: "event list \<Rightarrow> nat \<Rightarrow> (int \<times> real) list \<Rightarrow> error + anomaly list" where
  "collect_anomalies events idx [] = Inr []"
| "collect_anomalies events idx ((prediction, score) # rest) =
     (if prediction = - 1 then
        bind_err (index events idx) (\<lambda>ev.
        bind_err (collect_anomalies events (Suc idx) rest) (\<lambda>more.
        Inr (\<lparr>event_id = ev_id ev,
              anom_medicine_name = medicine_name ev,
              anom_severity = severity ev,
              anomaly_score = score,
              reason = explain_anomaly ev events\<rparr> # more)))
      else collect_anomalies events (Suc idx) rest)"

definition detect_anomalies ::
  "sklearn \<Rightarrow> pandas \<Rightarrow> int \<Rightarrow> engine \<Rightarrow> event list
     \<Rightarrow> error + (anomaly_report \<times> engine)" where
  "detect_anomalies sk pd now eng events =
     (if length events < 20 then
        Inr (\<lparr>anomalies = [],
              anom_message = Some ''Insufficient data for anomaly detection'',
              total_events = None, anomalies_detected = None, anomaly_rate = None,
              anom_timestamp = None\<rparr>, eng)
      else
        bind_err (extract_event_features pd now events) (\<lambda>features.
        bind_err (scaler_fit_transform sk features) (\<lambda>(features_normalized, sc).
        bind_err (case anomaly_detector eng of
                    None \<Rightarrow> Inl AttributeError
                  | Some _ \<Rightarrow> iforest_fit_predict sk features_normalized) (\<lambda>(predictions, det).
        bind_err (score_samples sk det features_normalized) (\<lambda>anomaly_scores.
        bind_err (collect_anomalies events 0 (zip predictions anomaly_scores)) (\<lambda>found.
        Inr (\<lparr>anomalies = take 10 (sort_key anomaly_score found),
              anom_message = None,
              total_events = Some (length events),
              anomalies_detected = Some (length found),
              anomaly_rate = Some (round3 (float_div (length found) (length events))),
              anom_timestamp = Some now\<rparr>,
             eng\<lparr>anomaly_detector := Some det, scaler := sc\<rparr>)))))))"

section \<open>Safety signals\<close>

record signal_metrics =
  severe_event_rate :: real
  hospitalization_rate :: real
  death_rate :: real
  recent_severe_rate :: "real option"
  sig_total_events :: nat
  sig_recent_events :: "nat option"

record signal_report =
  signal_detected :: bool
  sig_message :: "string option"
  sig_medicine_id :: "string option"
  signal_type :: "string option"
  metrics :: "signal_metrics option"
  recommendation :: "string option"
  sig_timestamp :: "int option"

definition is_severe :: "event \<Rightarrow> bool" where
  "is_severe e = (severity e = Some ''severe'' \<or> severity e = Some ''life_threatening'')"

definition is_recent :: "int \<Rightarrow> event \<Rightarrow> bool" where
  "is_recent now e =
     (case event_date e of
        Some (Timestamp t) \<Rightarrow> t \<ge> now - 90 * 86400000000
      | _ \<Rightarrow> False)"

definition is_unparsable :: "event \<Rightarrow> bool" where
  "is_unparsable e = (case event_date e of Some (Unparsable _) \<Rightarrow> True | _ \<Rightarrow> False)"

definition is_aware :: "event \<Rightarrow> bool" where
  "is_aware e = (case event_date e of Some (Aware _) \<Rightarrow> True | _ \<Rightarrow> False)"

text \<open>The four rates: quotients of two lengths, each a double.\<close>

definition severe_fraction :: "event list \<Rightarrow> nat \<times> nat" where
  "severe_fraction events = (length (filter is_severe events), length events)"

definition hospitalization_fraction :: "event list \<Rightarrow> nat \<times> nat" where
  "hospitalization_fraction events =
     (length (filter (\<lambda>e. required_hospitalization e = Some True) events), length events)"

definition death_fraction :: "event list \<Rightarrow> nat \<times> nat" where
  "death_fraction events =
     (length (filter (\<lambda>e. outcome e = Some ''death'') events), length events)"

definition recent_severe_fraction :: "int \<Rightarrow> event list \<Rightarrow> nat \<times> nat" where
  "recent_severe_fraction now events =
     (length (filter is_severe (filter (is_recent now) events)),
      max (length (filter (is_recent now) events)) 1)"

definition rate :: "nat \<times> nat \<Rightarrow> real" where
  "rate f = float_div (fst f) (snd f)"

definition exact :: "nat \<times> nat \<Rightarrow> real" where
  "exact f = of_nat (fst f) / of_nat (snd f)"

text \<open>
  The thresholds are the doubles of the literals, the product of the trend test is
  rounded to a double, and the comparisons are between doubles.
\<close>

definition signal_condition :: "int \<Rightarrow> event list \<Rightarrow> bool" where
  "signal_condition now events =
     (rate (severe_fraction events) > to_double 0.15
      \<or> rate (hospitalization_fraction events) > to_double 0.10
      \<or> rate (death_fraction events) > to_double 0.02
      \<or> rate (recent_severe_fraction now events)
          > to_double (rate (severe_fraction events) * 1.5))"

text \<open>
  \<open>classify_signal_type\<close> reads a real as the double nearest to it, so it is given
  each rate as the exact fraction whose double the code passes.
\<close>

definition signal_tier :: "int \<Rightarrow> event list \<Rightarrow> string" where
  "signal_tier now events =
     classify_signal_type (exact (severe_fraction events))
       (exact (hospitalization_fraction events)) (exact (death_fraction events))
       (exact (recent_severe_fraction now events))"

definition detect_safety_signals ::
  "pandas \<Rightarrow> int \<Rightarrow> string \<Rightarrow> event list \<Rightarrow> error + signal_report" where
  "detect_safety_signals pd now medicine_id events =
     (if length events < 5 then
        Inr \<lparr>signal_detected = False,
             sig_message = Some ''Insufficient data for signal detection'',
             sig_medicine_id = None, signal_type = None, metrics = None,
             recommendation = None, sig_timestamp = None\<rparr>
      else if \<not> has_column severity events then Inl KeyError
      else if \<not> has_column required_hospitalization events then Inl KeyError
      else if \<not> has_column outcome events then Inl KeyError
      else if \<not> has_column event_date events then Inl KeyError
      else if list_ex is_unparsable events then Inl ValueError
      else if list_ex is_aware events then Inl (aware_column_error pd)
      else if signal_condition now events then
        Inr \<lparr>signal_detected = True,
             sig_message = None,
             sig_medicine_id = Some medicine_id,
             signal_type = Some (signal_tier now events),
             metrics = Some \<lparr>severe_event_rate = round3 (rate (severe_fraction events)),
                             hospitalization_rate = round3 (rate (hospitalization_fraction events)),
                             death_rate = round3 (rate (death_fraction events)),
                             recent_severe_rate =
                               Some (round3 (rate (recent_severe_fraction now events))),
                             sig_total_events = length events,
                             sig_recent_events = Some (length (filter (is_recent now) events))\<rparr>,
             recommendation = Some (generate_signal_recommendation (signal_tier now events)),
             sig_timestamp = Some now\<rparr>
      else
        Inr \<lparr>signal_detected = False,
             sig_message = None,
             sig_medicine_id = Some medicine_id,
             signal_type = None,
             metrics = Some \<lparr>severe_event_rate = round3 (rate (severe_fraction events)),
                             hospitalization_rate = round3 (rate (hospitalization_fraction events)),
                             death_rate = round3 (rate (death_fraction events)),
                             recent_severe_rate = None,
                             sig_total_events = length events,
                             sig_recent_events = None\<rparr>,
             recommendation = None,
             sig_timestamp = None\<rparr>)"

section \<open>Pattern detection\<close>

text \<open>
  The per-cluster summary (\<^verbatim>\<open>_analyze_cluster\<close>: pandas mode, mean, value counts,
  minimum and maximum) is the parameter \<open>analyze\<close>; no property below depends on it.
  The clusters are visited in increasing order of their label.
\<close>

record 'p pattern_report =
  patterns :: "'p list"
  pat_message :: "string option"
  total_clusters :: "nat option"
  noise_points :: "nat option"
  pat_timestamp :: "int option"

text \<open>The labels of the clusters other than the noise, and the events of one cluster
  (\<^verbatim>\<open>df[clusters == cluster_id]\<close>).\<close>

definition cluster_ids :: "int list \<Rightarrow> int list" where
  "cluster_ids clusters = filter (\<lambda>c. c \<noteq> - 1) (sort (remdups clusters))"

definition cluster_events :: "event list \<Rightarrow> int list \<Rightarrow> int \<Rightarrow> event list" where
  "cluster_events events clusters cluster_id =
     map fst (filter (\<lambda>(e, c). c = cluster_id) (zip events clusters))"

definition detect_adverse_event_patterns ::
  "sklearn \<Rightarrow> pandas \<Rightarrow> (event list \<Rightarrow> int \<Rightarrow> error + 'p) \<Rightarrow> int \<Rightarrow> engine \<Rightarrow> event list
     \<Rightarrow> error + ('p pattern_report \<times> engine)" where
  "detect_adverse_event_patterns sk pd analyze now eng events =
     (if length events < 10 then
        Inr (\<lparr>patterns = [],
              pat_message = Some ''Insufficient data for pattern detection'',
              total_clusters = None, noise_points = None, pat_timestamp = None\<rparr>, eng)
      else
        bind_err (extract_event_features pd now events) (\<lambda>features.
        bind_err (scaler_fit_transform sk features) (\<lambda>(features_normalized, sc).
        bind_err (dbscan_fit_predict sk features_normalized) (\<lambda>clusters.
        if length clusters \<noteq> length events then Inl ValueError
        else
          bind_err (map_err (\<lambda>cluster_id.
                      analyze (cluster_events events clusters cluster_id) cluster_id)
                    (cluster_ids clusters)) (\<lambda>found.
          Inr (\<lparr>patterns = found,
                pat_message = None,
                total_clusters = Some (length (remdups clusters)
                                       - (if - 1 \<in> set clusters then 1 else 0)),
                noise_points = Some (length (filter (\<lambda>c. c = - 1) clusters)),
                pat_timestamp = Some now\<rparr>,
               eng\<lparr>scaler := sc\<rparr>))))))"

section \<open>Example inputs\<close>

text \<open>The empty dictionary, a store with no file under \<^verbatim>\<open>models/\<close>, and the engine
  that \<^verbatim>\<open>initialize_models\<close> leaves behind.\<close>

definition blank_event :: event where
  "blank_event =
     \<lparr>ev_id = None, medicine_name = None, severity = None, outcome = None,
      patient_age = None, required_hospitalization = None, life_threatening = None,
      symptoms = None, concurrent_medications = None, has_allergies = None,
      event_date = None\<rparr>"

definition empty_store :: model_store where
  "empty_store =
     \<lparr>anomaly_detector_pkl = Absent, risk_classifier_pkl = Absent, scaler_pkl = Absent,
      dump_error = None\<rparr>"

definition fresh_engine :: engine where
  "fresh_engine =
     \<lparr>anomaly_detector = Some IForestUnfitted, risk_classifier = Some ClassifierUnfitted,
      scaler = None\<rparr>"

text \<open>An instance of the estimators for examples: the scaler leaves values unchanged, the
  outlier model flags the rows of severity code 4 and scores a row by minus its symptom
  count, the density clustering puts those rows in the noise and the others in cluster 0,
  and the classifier gives probability one half.\<close>

definition demo_sklearn :: sklearn where
  "demo_sklearn =
     \<lparr>scaler_stats = (\<lambda>col. (0, 1)),
      dbscan_fit_predict = (\<lambda>X. Inr (map (\<lambda>row. if row ! 0 = Num 4 then - 1 else 0) X)),
      iforest_fit_error = (\<lambda>X. None),
      iforest_predict = (\<lambda>T X. map (\<lambda>row. if row ! 0 = Num 4 then - 1 else 1) X),
      iforest_score_samples = (\<lambda>T X. map (\<lambda>row. case row ! 5 of Num n \<Rightarrow> - n | NaN \<Rightarrow> 0) X),
      forest_fit_error = (\<lambda>X y. None),
      forest_proba = (\<lambda>T y row. 1 / 2)\<rparr>"

text \<open>The pandas of a version before 3.\<close>

definition demo_pandas :: pandas where
  "demo_pandas = \<lparr>no_date_days = Inl TypeError, aware_column_error = TypeError\<rparr>"

definition demo_event :: "string \<Rightarrow> nat \<Rightarrow> event" where
  "demo_event sev n =
     \<lparr>ev_id = Some ''E1'', medicine_name = Some ''aspirin'', severity = Some sev,
      outcome = Some ''recovered'', patient_age = Some 40,
      required_hospitalization = Some False, life_threatening = Some False,
      symptoms = Some (replicate n ''rash''), concurrent_medications = Some [],
      has_allergies = Some False, event_date = Some (Timestamp 0)\<rparr>"

text \<open>A batch of \<open>k\<close> life-threatening events with 1 to \<open>k\<close> symptoms followed by
  \<open>m\<close> mild events without symptoms.\<close>

definition demo_batch :: "nat \<Rightarrow> nat \<Rightarrow> event list" where
  "demo_batch k m =
     map (demo_event ''life_threatening'') [1..<Suc k] @ replicate m (demo_event ''mild'' 0)"

section \<open>Properties\<close>

subsection \<open>Errors and sequencing\<close>



lemma bind_err_Inr: "(bind_err r f = Inr z) = (\<exists>v. r = Inr v \<and> f v = Inr z)"
  by (cases r) (simp_all add: bind_err_def)

lemma bind_err_simps: "bind_err (Inl e) f = Inl e" "bind_err (Inr v) f = f v"
  by (simp_all add: bind_err_def)


lemma map_err_Inr: "map_err f xs = Inr ys \<Longrightarrow> list_all2 (\<lambda>x y. f x = Inr y) xs ys"
  by (induction xs arbitrary: ys) (auto split: sum.splits)

subsection \<open>Rounding to a double\<close>

lemma exponent_bounds:
  assumes "0 < x"
  shows "pow2 (binary_exponent x) \<le> x \<and> x < pow2 (binary_exponent x + 1)"
proof (cases "1 \<le> x")
  case True
  have "2 ^ halvings y \<le> y \<and> y < 2 ^ Suc (halvings y)" if "1 \<le> y" for y :: real
    using that
  proof (induction y rule: halvings.induct)
    case (1 y)
    show ?case
    proof (cases "y < 2")
      case True
      with "1.prems" show ?thesis
        by (simp add: halvings.simps [of y])
    next
      case False
      then have "1 \<le> y / 2" by simp
      from "1.IH" [OF False this] False show ?thesis
        by (simp add: halvings.simps [of y])
    qed
  qed
  from this [OF True] True show ?thesis
    by (simp add: binary_exponent_def pow2_def nat_add_distrib)
next
  case False
  have "y * 2 ^ doublings y \<in> {1..<2}" if "0 < y" "y < 1" for y :: real
    using that
  proof (induction y rule: doublings.induct)
    case (1 y)
    show ?case
    proof (cases "1 \<le> 2 * y")
      case True
      then have "doublings (2 * y) = 0"
        by (simp add: doublings.simps [of "2 * y"])
      with "1.prems" True show ?thesis
        by (simp add: doublings.simps [of y])
    next
      case False
      with "1.prems" have "\<not> (y \<le> 0 \<or> 1 \<le> y)" "0 < 2 * y" "2 * y < 1"
        by simp_all
      from "1.IH" [OF this] "1.prems" show ?thesis
        by (simp add: doublings.simps [of y] mult.assoc)
    qed
  qed
  from this [of x] assms False have b: "1 \<le> x * 2 ^ doublings x" "x * 2 ^ doublings x < 2"
    by simp_all
  have p: "pow2 (- int n) = 1 / 2 ^ n" for n
    by (simp add: pow2_def)
  have e: "binary_exponent x = - int (doublings x)"
    using False by (simp add: binary_exponent_def)
  show ?thesis
  proof (cases "doublings x")
    case 0
    with b False show ?thesis by simp
  next
    case (Suc k)
    then have "binary_exponent x + 1 = - int k"
      using e by simp
    moreover have "1 / 2 ^ Suc k \<le> x" "x < 1 / 2 ^ k"
      using b Suc by (simp_all add: field_simps)
    ultimately show ?thesis
      using p [of "Suc k"] p [of k] e Suc by simp
  qed
qed

lemma round_half_even_le: "y \<le> of_int n \<Longrightarrow> round_half_even y \<le> n"
proof (cases "y = of_int n")
  case True
  then show ?thesis
    by (simp add: round_half_even_def)
next
  case False
  assume "y \<le> of_int n"
  with False have "y < of_int n" by simp
  then have "\<lfloor>y\<rfloor> \<le> n - 1"
    by (simp add: floor_less_iff)
  moreover have "round_half_even y \<le> \<lfloor>y\<rfloor> + 1"
    by (simp add: round_half_even_def Let_def)
  ultimately show ?thesis by linarith
qed

lemma round_half_even_ge: "of_int n \<le> y \<Longrightarrow> n \<le> round_half_even y"
proof -
  assume "of_int n \<le> y"
  then have "n \<le> \<lfloor>y\<rfloor>"
    by (simp add: le_floor_iff)
  moreover have "\<lfloor>y\<rfloor> \<le> round_half_even y"
    by (simp add: round_half_even_def Let_def)
  ultimately show ?thesis by linarith
qed

lemma to_double_unit:
  assumes "0 \<le> x" "x \<le> 1"
  shows "0 \<le> to_double x \<and> to_double x \<le> 1"
proof (cases "x = 0")
  case True
  then show ?thesis by (simp add: to_double_def)
next
  case False
  with assms have pos: "0 < x" by simp
  define m where "m = max (binary_exponent \<bar>x\<bar>) (- 1022) - 52"
  have "halvings 1 = 0"
    by (simp add: halvings.simps [of 1])
  then have "binary_exponent x \<le> 0"
    using assms(2) by (auto simp: binary_exponent_def)
  then have m: "m < 0"
    using pos by (simp add: m_def)
  define N :: nat where "N = 2 ^ nat (- m)"
  have u: "pow2 m = 1 / of_nat N"
    using m by (simp add: pow2_def N_def)
  have N: "0 < N" by (simp add: N_def)
  have td: "to_double x = of_int (round_half_even (x * of_nat N)) / of_nat N"
    using False by (simp add: to_double_def Let_def m_def [symmetric] u)
  have "x * of_nat N \<le> of_int (int N)"
    using assms(2) N by (simp add: mult_le_cancel_right1)
  then have hi: "round_half_even (x * of_nat N) \<le> int N"
    by (rule round_half_even_le)
  have "of_int 0 \<le> x * of_nat N"
    using assms(1) by simp
  then have lo: "0 \<le> round_half_even (x * of_nat N)"
    by (rule round_half_even_ge)
  from hi have "(of_int (round_half_even (x * of_nat N)) :: real) \<le> of_nat N"
    by (metis of_int_le_iff of_int_of_nat_eq)
  with lo N show ?thesis
    unfolding td by (simp add: divide_le_eq)
qed

lemma round3_unit:
  assumes "0 \<le> x" "x \<le> 1"
  shows "0 \<le> round3 x \<and> round3 x \<le> 1"
proof -
  have "of_int 0 \<le> x * 1000"
    using assms by simp
  then have "0 \<le> round_half_even (x * 1000)"
    by (rule round_half_even_ge)
  moreover have "x * 1000 \<le> of_int 1000"
    using assms by simp
  then have "round_half_even (x * 1000) \<le> 1000"
    by (rule round_half_even_le)
  ultimately show ?thesis
    by (simp add: round3_def)
qed

lemma rounded_rate_unit:
  assumes "k \<le> n" "0 < n"
  shows "0 \<le> round3 (float_div k n) \<and> round3 (float_div k n) \<le> 1"
proof -
  have "0 \<le> (of_nat k / of_nat n :: real)" "(of_nat k / of_nat n :: real) \<le> 1"
    using assms by (simp_all add: divide_le_eq)
  then have "0 \<le> float_div k n \<and> float_div k n \<le> 1"
    unfolding float_div_def by (rule to_double_unit)
  then show ?thesis
    using round3_unit by blast
qed

subsection \<open>Rows of the feature matrix\<close>





lemma extract_row_Inr:
  assumes "extract_row pd now df row = Inr v"
  shows "length v = 7
         \<and> (event_date row = None \<and> (has_column event_date df \<or> no_date_days pd = Inr NaN)
              \<longrightarrow> v ! 6 = NaN)"
proof -
  from assms obtain sev out n days where
    days: "days_since_event pd now (row_get df event_date row) = Inr days"
    and v: "v = [Num (of_int sev), Num (of_int out),
                 Num (of_int (age_group_code (row_get df patient_age row))),
                 Num (of_int (flag_code (row_get df required_hospitalization row))),
                 Num (of_int (flag_code (row_get df life_threatening row))),
                 Num (of_nat n), days]"
    unfolding extract_row_def Let_def bind_err_Inr by auto
  have "days = NaN"
    if "event_date row = None" "has_column event_date df \<or> no_date_days pd = Inr NaN"
    using days that by (auto simp: row_get_def days_since_event_def split: if_splits)
  with v show ?thesis by simp
qed

lemma extract_event_features_shape:
  assumes "extract_event_features pd now df = Inr X"
  shows "length X = length df \<and> list_all (\<lambda>v. length v = 7) X"
proof -
  have "list_all2 (\<lambda>row v. extract_row pd now df row = Inr v) df X"
    using assms map_err_Inr unfolding extract_event_features_def by blast
  then show ?thesis
    using extract_row_Inr by (auto simp: list_all2_conv_all_nth list_all_length)
qed

subsection \<open>Rule-based score and signal tiers\<close>

lemma rule_points_nonneg:
  "0 \<le> severity_points e" "0 \<le> hospitalization_points e" "0 \<le> life_threatening_points e"
  "0 \<le> age_points e" "0 \<le> symptom_points e"
  by (simp_all add: severity_points_def hospitalization_points_def life_threatening_points_def
      age_points_def symptom_points_def Let_def)

lemma add_if_zero: "(if c then (s::real) + k else s) = s + (if c then k else 0)"
  by simp

lemma rule_based_risk_sum:
  "calculate_rule_based_risk e =
     min (severity_points e + hospitalization_points e + life_threatening_points e
          + age_points e + symptom_points e) 1"
  unfolding calculate_rule_based_risk_def severity_points_def hospitalization_points_def
      life_threatening_points_def age_points_def symptom_points_def truthy_def Let_def
      add_if_zero
  by (simp only: add_0 cong: if_cong)

text \<open>
  C5.  Signal tiering is a strict priority cascade: a death rate above 0.02 gives
  \<open>critical\<close> whatever the other rates are; otherwise a hospitalization rate above 0.15
  or a recent-severe rate above 0.3 gives \<open>high\<close>; otherwise a severe rate above 0.20
  gives \<open>moderate\<close>; otherwise the tier is \<open>low\<close>.  Each tier has its fixed
  recommendation text.
\<close>

theorem signal_tier_cascade:
  "(d > 0.02 \<longrightarrow> classify_signal_type s h d r = ''critical'')
   \<and> (\<not> d > 0.02 \<and> (h > 0.15 \<or> r > 0.3) \<longrightarrow> classify_signal_type s h d r = ''high'')
   \<and> (\<not> d > 0.02 \<and> \<not> (h > 0.15 \<or> r > 0.3) \<and> s > 0.20
        \<longrightarrow> classify_signal_type s h d r = ''moderate'')
   \<and> (\<not> d > 0.02 \<and> \<not> (h > 0.15 \<or> r > 0.3) \<and> \<not> s > 0.20
        \<longrightarrow> classify_signal_type s h d r = ''low'')
   \<and> classify_signal_type s h d r \<in> {''critical'', ''high'', ''moderate'', ''low''}
   \<and> generate_signal_recommendation ''critical'' =
        ''URGENT: Consider immediate recall or suspension. Convene safety review committee.''
   \<and> generate_signal_recommendation ''high'' =
        ''HIGH PRIORITY: Detailed investigation required. Consider risk mitigation measures.''
   \<and> generate_signal_recommendation ''moderate'' =
        ''MODERATE: Monitor closely. Review product labeling and prescribing information.''
   \<and> generate_signal_recommendation ''low'' =
        ''LOW: Continue monitoring. Consider additional post-market surveillance.''"
  by (simp add: classify_signal_type_def generate_signal_recommendation_def)

theorem signal_tier_cascade_witness:
  "classify_signal_type 1 1 0.03 1 = ''critical''
   \<and> classify_signal_type 1 0.16 0.02 0 = ''high''
   \<and> classify_signal_type 1 0.15 0.02 0.31 = ''high''
   \<and> classify_signal_type 0.21 0.15 0.02 0.3 = ''moderate''
   \<and> classify_signal_type 0.20 0.15 0.02 0.3 = ''low''"
proof -
  have "classify_signal_type 1 1 0.03 1 = ''critical''"
    using signal_tier_cascade [where d = "0.03" and s = 1 and h = 1 and r = 1] by simp
  moreover have "classify_signal_type 1 0.16 0.02 0 = ''high''"
    using signal_tier_cascade [where d = "0.02" and s = 1 and h = "0.16" and r = 0] by simp
  moreover have "classify_signal_type 1 0.15 0.02 0.31 = ''high''"
    using signal_tier_cascade [where d = "0.02" and s = 1 and h = "0.15" and r = "0.31"] by simp
  moreover have "classify_signal_type 0.21 0.15 0.02 0.3 = ''moderate''"
    using signal_tier_cascade [where d = "0.02" and s = "0.21" and h = "0.15" and r = "0.3"] by simp
  moreover have "classify_signal_type 0.20 0.15 0.02 0.3 = ''low''"
    using signal_tier_cascade [where d = "0.02" and s = "0.20" and h = "0.15" and r = "0.3"] by simp
  ultimately show ?thesis by simp
qed

text \<open>
  C6.  The rule-based risk score is the clamp to \<open>[0, 1]\<close> of the sum of the listed
  contributions; it lies in \<open>[0, 1]\<close>; it does not decrease when qualifying conditions
  are added (a severity of at least the same weight, and every flag or threshold
  condition that held still holding); and the record with life-threatening severity,
  hospitalization, the life-threatening flag, age 80 and six symptoms scores 1 at level
  \<open>critical\<close>.
\<close>

theorem rule_based_risk_clamped_sum:
  "calculate_rule_based_risk e = spec_rule_score e
   \<and> 0 \<le> calculate_rule_based_risk e
   \<and> calculate_rule_based_risk e \<le> 1
   \<and> (severity_points e \<le> severity_points e'
        \<and> (truthy (required_hospitalization e) \<longrightarrow> truthy (required_hospitalization e'))
        \<and> (truthy (life_threatening e) \<longrightarrow> truthy (life_threatening e'))
        \<and> (get_or 0 (patient_age e) < 5 \<or> get_or 0 (patient_age e) > 75
             \<longrightarrow> get_or 0 (patient_age e') < 5 \<or> get_or 0 (patient_age e') > 75)
        \<and> (length (get_or [] (symptoms e)) > 5 \<longrightarrow> length (get_or [] (symptoms e')) > 5)
        \<longrightarrow> calculate_rule_based_risk e \<le> calculate_rule_based_risk e')
   \<and> (severity x = Some ''life_threatening'' \<and> required_hospitalization x = Some True
        \<and> life_threatening x = Some True \<and> patient_age x = Some 80
        \<and> (\<exists>ss. symptoms x = Some ss \<and> length ss = 6)
        \<longrightarrow> calculate_rule_based_risk x = 1.0
            \<and> classify_risk_level (calculate_rule_based_risk x) = ''critical'')"
proof -
  let ?sum = "\<lambda>e. severity_points e + hospitalization_points e + life_threatening_points e
                   + age_points e + symptom_points e"
  have nonneg: "0 \<le> ?sum u" for u
    using rule_points_nonneg [of u] by linarith
  have eq: "calculate_rule_based_risk e = spec_rule_score e"
    using nonneg [of e] by (simp add: rule_based_risk_sum spec_rule_score_def)
  have lo: "0 \<le> calculate_rule_based_risk e"
    using nonneg [of e] by (simp add: rule_based_risk_sum)
  have hi: "calculate_rule_based_risk e \<le> 1"
    by (simp add: rule_based_risk_sum)
  have mono: "calculate_rule_based_risk e \<le> calculate_rule_based_risk e'"
    if sev: "severity_points e \<le> severity_points e'"
      and hosp: "truthy (required_hospitalization e) \<longrightarrow> truthy (required_hospitalization e')"
      and lt: "truthy (life_threatening e) \<longrightarrow> truthy (life_threatening e')"
      and age: "get_or 0 (patient_age e) < 5 \<or> get_or 0 (patient_age e) > 75
             \<longrightarrow> get_or 0 (patient_age e') < 5 \<or> get_or 0 (patient_age e') > 75"
      and sym: "length (get_or [] (symptoms e)) > 5 \<longrightarrow> length (get_or [] (symptoms e')) > 5"
  proof -
    have "hospitalization_points e \<le> hospitalization_points e'"
      using hosp by (simp add: hospitalization_points_def truthy_def)
    moreover have "life_threatening_points e \<le> life_threatening_points e'"
      using lt by (simp add: life_threatening_points_def truthy_def)
    moreover have "age_points e \<le> age_points e'"
      using age by (simp add: age_points_def)
    moreover have "symptom_points e \<le> symptom_points e'"
      using sym by (simp add: symptom_points_def)
    ultimately have "?sum e \<le> ?sum e'"
      using sev by linarith
    then show ?thesis
      by (simp add: rule_based_risk_sum min_le_iff_disj)
  qed
  have ex: "calculate_rule_based_risk x = 1.0
            \<and> classify_risk_level (calculate_rule_based_risk x) = ''critical''"
    if "severity x = Some ''life_threatening''" "required_hospitalization x = Some True"
      "life_threatening x = Some True" "patient_age x = Some 80"
      "\<exists>ss. symptoms x = Some ss \<and> length ss = 6"
  proof -
    from that obtain ss where ss: "symptoms x = Some ss" "length ss = 6"
      by blast
    have "calculate_rule_based_risk x = 1"
      using that(1-4) ss
      by (simp add: calculate_rule_based_risk_def get_or_def truthy_def lower_def lower_char_def)
    then show ?thesis
      by (simp add: classify_risk_level_def)
  qed
  show ?thesis
    using eq lo hi mono ex by blast
qed

theorem rule_based_risk_clamped_sum_witness:
  "calculate_rule_based_risk (blank_event\<lparr>severity := Some ''Moderate'', patient_age := Some 40\<rparr>)
     = spec_rule_score (blank_event\<lparr>severity := Some ''Moderate'', patient_age := Some 40\<rparr>)
   \<and> calculate_rule_based_risk (blank_event\<lparr>severity := Some ''Moderate'', patient_age := Some 40\<rparr>)
     \<le> calculate_rule_based_risk (demo_event ''severe'' 6\<lparr>required_hospitalization := Some True\<rparr>)
   \<and> calculate_rule_based_risk
        (demo_event ''life_threatening'' 6\<lparr>required_hospitalization := Some True,
           life_threatening := Some True, patient_age := Some 80\<rparr>) = 1
   \<and> classify_risk_level (calculate_rule_based_risk
        (demo_event ''life_threatening'' 6\<lparr>required_hospitalization := Some True,
           life_threatening := Some True, patient_age := Some 80\<rparr>)) = ''critical''"
proof -
  let ?e = "blank_event\<lparr>severity := Some ''Moderate'', patient_age := Some 40\<rparr>"
  let ?e' = "demo_event ''severe'' 6\<lparr>required_hospitalization := Some True\<rparr>"
  let ?x = "demo_event ''life_threatening'' 6\<lparr>required_hospitalization := Some True,
           life_threatening := Some True, patient_age := Some 80\<rparr>"
  note t = rule_based_risk_clamped_sum [where e = ?e and e' = ?e' and x = ?x]
  have sev: "severity_points ?e \<le> severity_points ?e'"
    by (simp add: severity_points_def blank_event_def demo_event_def get_or_def lower_def
        lower_char_def)
  have flags: "\<not> truthy (required_hospitalization ?e)" "\<not> truthy (life_threatening ?e)"
    "\<not> (get_or 0 (patient_age ?e) < 5 \<or> 75 < get_or 0 (patient_age ?e))"
    "\<not> 5 < length (get_or [] (symptoms ?e))"
    by (simp_all add: truthy_def blank_event_def get_or_def)
  have x: "severity ?x = Some ''life_threatening''" "required_hospitalization ?x = Some True"
    "life_threatening ?x = Some True" "patient_age ?x = Some 80"
    "\<exists>ss. symptoms ?x = Some ss \<and> length ss = 6"
    by (simp_all add: demo_event_def)
  have mono: "calculate_rule_based_risk ?e \<le> calculate_rule_based_risk ?e'"
    using t sev flags by blast
  have ex: "calculate_rule_based_risk ?x = 1.0
            \<and> classify_risk_level (calculate_rule_based_risk ?x) = ''critical''"
    using t x by blast
  have eq: "calculate_rule_based_risk ?e = spec_rule_score ?e"
    using t by blast
  show ?thesis
    using eq mono ex by (simp add: classify_risk_level_def)
qed

subsection \<open>Risk prediction on an engine without a fitted scaler\<close>

text \<open>
  C1.  The claim is that no engine state makes \<open>predict_risk_score\<close> raise: every
  failure of the learned path gives the rule-based result.  The normalisation stands
  before the \<^verbatim>\<open>try\<close>, so on the engine built when no model file exists (and on
  any engine whose scaler was never fitted) the call raises \<^verbatim>\<open>NotFittedError\<close>
  for every event, and the rule-based fallback is not reached.
\<close>

theorem predict_risk_score_unfitted_scaler:
  "init_engine empty_store = Inr fresh_engine
   \<and> predict_risk_score sk fresh_engine e = Inl NotFittedError
   \<and> predict_risk_score sk (eng\<lparr>scaler := None\<rparr>) e = Inl NotFittedError"
  by (simp add: init_engine_def load_models_def try_load_def joblib_load_def empty_store_def
      fresh_engine_def initialize_models_def predict_risk_score_def scaler_transform_def
      bind_err_def)


subsection \<open>Dates in feature extraction\<close>




subsection \<open>Loading and persisting the models\<close>

text \<open>
  C4 as stated: every failure to load the persisted models is recovered.  It fails for a
  corrupt file: only \<^verbatim>\<open>FileNotFoundError\<close> is caught.
\<close>

theorem load_models_corrupt_artifact:
  "init_engine (empty_store\<lparr>anomaly_detector_pkl := Corrupt\<rparr>) = Inl UnpicklingError"
  by (simp add: init_engine_def load_models_def try_load_def joblib_load_def empty_store_def)


text \<open>
  C4, amended.  When the first file that fails to load is absent, the constructor
  recovers with fresh untrained models (and an unfitted scaler); when all three load,
  the engine holds them; when the first file that fails is corrupt or unreadable, the
  constructor raises that error.  A fault of \<^verbatim>\<open>joblib.dump\<close> during training
  is raised to the caller: training never returns a summary then, and when everything
  before the first dump succeeded the error raised is the dump's own.
\<close>

theorem load_models_recovery:
  "(anomaly_detector_pkl st = Absent \<longrightarrow> init_engine st = Inr fresh_engine)
   \<and> (anomaly_detector_pkl st = Stored a \<and> risk_classifier_pkl st = Absent
        \<longrightarrow> init_engine st = Inr fresh_engine)
   \<and> (anomaly_detector_pkl st = Stored a \<and> risk_classifier_pkl st = Stored c
        \<and> scaler_pkl st = Absent
        \<longrightarrow> init_engine st = Inr fresh_engine)
   \<and> (anomaly_detector_pkl st = Stored a \<and> risk_classifier_pkl st = Stored c
        \<and> scaler_pkl st = Stored s
        \<longrightarrow> init_engine st
            = Inr \<lparr>anomaly_detector = Some a, risk_classifier = Some c, scaler = s\<rparr>)
   \<and> (anomaly_detector_pkl st = Corrupt \<longrightarrow> init_engine st = Inl UnpicklingError)
   \<and> (anomaly_detector_pkl st = Unreadable \<longrightarrow> init_engine st = Inl PermissionError)
   \<and> (anomaly_detector_pkl st = Stored a \<and> risk_classifier_pkl st = Corrupt
        \<longrightarrow> init_engine st = Inl UnpicklingError)
   \<and> (anomaly_detector_pkl st = Stored a \<and> risk_classifier_pkl st = Unreadable
        \<longrightarrow> init_engine st = Inl PermissionError)
   \<and> (anomaly_detector_pkl st = Stored a \<and> risk_classifier_pkl st = Stored c
        \<and> scaler_pkl st = Corrupt
        \<longrightarrow> init_engine st = Inl UnpicklingError)
   \<and> (anomaly_detector_pkl st = Stored a \<and> risk_classifier_pkl st = Stored c
        \<and> scaler_pkl st = Unreadable
        \<longrightarrow> init_engine st = Inl PermissionError)
   \<and> (dump_error st = Some err
        \<longrightarrow> (\<forall>r. train_models sk pd now st eng training_data \<noteq> Inr r))
   \<and> (dump_error st = Some err
        \<and> extract_event_features pd now training_data = Inr X
        \<and> risk_labels training_data = Inr y
        \<and> scaler_fit_transform sk X = Inr (Xn, sc)
        \<and> anomaly_detector eng = Some a0 \<and> iforest_fit sk Xn = Inr det
        \<and> risk_classifier eng = Some c0 \<and> classifier_fit sk Xn y = Inr clf
        \<longrightarrow> train_models sk pd now st eng training_data = Inl err)"
proof -
  have load: "init_engine st =
      (case anomaly_detector_pkl st of
         Stored a \<Rightarrow>
           (case risk_classifier_pkl st of
              Stored c \<Rightarrow>
                (case scaler_pkl st of
                   Stored s \<Rightarrow> Inr \<lparr>anomaly_detector = Some a, risk_classifier = Some c, scaler = s\<rparr>
                 | Absent \<Rightarrow> Inr fresh_engine
                 | Unreadable \<Rightarrow> Inl PermissionError
                 | Corrupt \<Rightarrow> Inl UnpicklingError)
            | Absent \<Rightarrow> Inr fresh_engine
            | Unreadable \<Rightarrow> Inl PermissionError
            | Corrupt \<Rightarrow> Inl UnpicklingError)
       | Absent \<Rightarrow> Inr fresh_engine
       | Unreadable \<Rightarrow> Inl PermissionError
       | Corrupt \<Rightarrow> Inl UnpicklingError)"
    by (simp add: init_engine_def load_models_def try_load_def joblib_load_def fresh_engine_def
        initialize_models_def Let_def split: artifact.splits)
  have dump: "joblib_dump st w = Inl err" if "dump_error st = Some err" for w
    using that by (simp add: joblib_dump_def)
  have never: "train_models sk pd now st eng training_data \<noteq> Inr r" if "dump_error st = Some err" for r
    unfolding train_models_def bind_err_Inr using dump [OF that]
    by (auto simp: bind_err_Inr)
  have surfaced: "train_models sk pd now st eng training_data = Inl err"
    if "dump_error st = Some err" "extract_event_features pd now training_data = Inr X"
      "risk_labels training_data = Inr y" "scaler_fit_transform sk X = Inr (Xn, sc)"
      "anomaly_detector eng = Some a0" "iforest_fit sk Xn = Inr det"
      "risk_classifier eng = Some c0" "classifier_fit sk Xn y = Inr clf"
    using that by (simp add: train_models_def bind_err_def joblib_dump_def)
  show ?thesis
    using never surfaced by (simp add: load)
qed

theorem load_models_recovery_witness:
  "init_engine empty_store = Inr fresh_engine
   \<and> init_engine (empty_store\<lparr>anomaly_detector_pkl := Stored (IForestFitted [])\<rparr>) = Inr fresh_engine
   \<and> init_engine (empty_store\<lparr>anomaly_detector_pkl := Unreadable\<rparr>) = Inl PermissionError
   \<and> init_engine (empty_store\<lparr>anomaly_detector_pkl := Stored (IForestFitted []),
        risk_classifier_pkl := Corrupt\<rparr>) = Inl UnpicklingError
   \<and> train_models demo_sklearn demo_pandas 0 (empty_store\<lparr>dump_error := Some OSError\<rparr>) fresh_engine
        [demo_event ''mild'' 1] = Inl OSError"
proof -
  let ?a = "IForestFitted []"
  have 1: "init_engine empty_store = Inr fresh_engine"
    using load_models_recovery [where st = empty_store] by (simp add: empty_store_def)
  have 2: "init_engine (empty_store\<lparr>anomaly_detector_pkl := Stored ?a\<rparr>) = Inr fresh_engine"
    using load_models_recovery [where st = "empty_store\<lparr>anomaly_detector_pkl := Stored ?a\<rparr>"
        and a = ?a]
    by (simp add: empty_store_def)
  have 3: "init_engine (empty_store\<lparr>anomaly_detector_pkl := Unreadable\<rparr>) = Inl PermissionError"
    using load_models_recovery [where st = "empty_store\<lparr>anomaly_detector_pkl := Unreadable\<rparr>"]
    by (simp add: empty_store_def)
  have 4: "init_engine (empty_store\<lparr>anomaly_detector_pkl := Stored ?a,
        risk_classifier_pkl := Corrupt\<rparr>) = Inl UnpicklingError"
    using load_models_recovery [where st = "empty_store\<lparr>anomaly_detector_pkl := Stored ?a,
        risk_classifier_pkl := Corrupt\<rparr>" and a = ?a]
    by (simp add: empty_store_def)
  let ?X = "[[Num 1, Num 1, Num 2, Num 0, Num 0, Num 1, Num 0]]"
  have x: "extract_event_features demo_pandas 0 [demo_event ''mild'' 1] = Inr ?X"
    by code_simp
  have y: "risk_labels [demo_event ''mild'' 1] = Inr [False]"
    by code_simp
  have f: "scaler_fit_transform demo_sklearn ?X
      = Inr (?X, Some \<lparr>n_features_in = 7, mean_of = replicate 7 0, scale_of = replicate 7 1\<rparr>)"
    by code_simp
  have d: "iforest_fit demo_sklearn ?X = Inr (IForestFitted ?X)"
    by code_simp
  have c: "classifier_fit demo_sklearn ?X [False] = Inr (ClassifierFitted 7 ?X [False])"
    by code_simp
  have 5: "train_models demo_sklearn demo_pandas 0 (empty_store\<lparr>dump_error := Some OSError\<rparr>) fresh_engine
        [demo_event ''mild'' 1] = Inl OSError"
    using load_models_recovery [where st = "empty_store\<lparr>dump_error := Some OSError\<rparr>"
        and err = OSError and pd = demo_pandas and now = 0 and training_data = "[demo_event ''mild'' 1]"
        and sk = demo_sklearn and eng = fresh_engine and X = ?X and y = "[False]" and Xn = ?X
        and det = "IForestFitted ?X" and clf = "ClassifierFitted 7 ?X [False]"
        and a0 = IForestUnfitted and c0 = ClassifierUnfitted
        and sc = "Some \<lparr>n_features_in = 7, mean_of = replicate 7 0, scale_of = replicate 7 1\<rparr>"]
      x y f d c
    by (simp add: empty_store_def fresh_engine_def)
  show ?thesis
    using 1 2 3 4 5 by simp
qed

subsection \<open>Training followed by risk prediction\<close>

lemma scaler_fit_transform_Inr:
  assumes "scaler_fit_transform sk X = Inr (Xn, sc)"
  shows "\<exists>p. sc = Some p \<and> X \<noteq> [] \<and> n_features_in p = length (hd X)
           \<and> length (mean_of p) = n_features_in p \<and> length (scale_of p) = n_features_in p
           \<and> list_all (\<lambda>row. length row = n_features_in p) X
           \<and> Xn = map (\<lambda>row. map scale_value (zip row (zip (mean_of p) (scale_of p)))) X"
proof -
  from assms obtain p where p: "scaler_fit sk X = Inr p"
    and t: "scaler_transform (Some p) X = Inr Xn" and sc: "sc = Some p"
    unfolding scaler_fit_transform_def bind_err_Inr by auto
  from p have shape: "X \<noteq> [] \<and> n_features_in p = length (hd X)
      \<and> length (mean_of p) = n_features_in p \<and> length (scale_of p) = n_features_in p
      \<and> list_all (\<lambda>row. length row = n_features_in p) X"
    by (auto simp: scaler_fit_def Let_def columns_def split: list.splits if_splits)
  from t shape have "Xn = map (\<lambda>row. map scale_value (zip row (zip (mean_of p) (scale_of p)))) X"
    by (auto simp: scaler_transform_def split: if_splits)
  with sc shape show ?thesis by blast
qed

lemma train_models_Inr:
  assumes "train_models sk pd now st eng training_data = Inr (summary, eng', st')"
  shows "\<exists>X y Xn sc det clf.
           extract_event_features pd now training_data = Inr X
           \<and> risk_labels training_data = Inr y
           \<and> scaler_fit_transform sk X = Inr (Xn, sc)
           \<and> classifier_fit sk Xn y = Inr clf
           \<and> eng' = \<lparr>anomaly_detector = Some det, risk_classifier = Some clf, scaler = sc\<rparr>"
  using assms
  by (auto simp: train_models_def bind_err_Inr split: option.splits prod.splits)

lemma train_models_scaler:
  assumes "train_models sk pd now st eng training_data = Inr (summary, eng', st')"
  shows "\<exists>p. scaler eng' = Some p \<and> n_features_in p = 7"
proof -
  from train_models_Inr [OF assms] obtain X y Xn sc det clf where
    X: "extract_event_features pd now training_data = Inr X"
    and f: "scaler_fit_transform sk X = Inr (Xn, sc)"
    and e: "eng' = \<lparr>anomaly_detector = Some det, risk_classifier = Some clf, scaler = sc\<rparr>"
    by blast
  from scaler_fit_transform_Inr [OF f] obtain p where
    p: "sc = Some p" "X \<noteq> []" "n_features_in p = length (hd X)"
    by blast
  from extract_event_features_shape [OF X] p(2) have "length (hd X) = 7"
    by (cases X) simp_all
  with p e show ?thesis by simp
qed

lemma risk_features_length: "length (risk_features e) = 7"
  by (simp add: risk_features_def)

lemma ml_risk_single_class:
  assumes "risk_classifier eng = Some (ClassifierFitted n T y)"
    and "\<not> (list_ex (\<lambda>b. b) y \<and> list_ex (\<lambda>b. \<not> b) y)"
  shows "isl (ml_risk sk eng M)"
proof (cases "predict_proba sk (ClassifierFitted n T y) M")
  case (Inl err)
  with assms(1) show ?thesis
    by (simp add: ml_risk_def bind_err_def)
next
  case (Inr P)
  then have P: "P = map (\<lambda>row. [1]) M"
    using assms(2) by (auto simp: predict_proba_def class_probabilities_def split: if_splits)
  show ?thesis
  proof (cases M)
    case Nil
    with P Inr assms(1) show ?thesis
      by (simp add: ml_risk_def bind_err_def index_def)
  next
    case (Cons row rest)
    with P Inr assms(1) show ?thesis
      by (simp add: ml_risk_def bind_err_def index_def)
  qed
qed

text \<open>
  C3.  The claim is that after a successful \<^verbatim>\<open>train_models\<close> a risk prediction
  takes the learned path.  When no training record is severe, life-threatening or
  hospitalized, all labels are 0, the fitted classifier knows one class, its
  \<^verbatim>\<open>predict_proba\<close> has a single column, \<^verbatim>\<open>risk_probability[1]\<close> raises
  \<^verbatim>\<open>IndexError\<close> and the bare \<^verbatim>\<open>except\<close> returns the rule-based result:
  after every such training, for every event.
\<close>

theorem train_single_class_falls_back:
  "train_models sk pd now st eng training_data = Inr (summary, eng', st')
   \<and> list_all (\<lambda>r. \<not> is_severe r \<and> required_hospitalization r \<noteq> Some True) training_data
   \<longrightarrow> predict_risk_score sk eng' e = Inr (rule_based_assessment e)
       \<and> scoring_method (rule_based_assessment e) = Some ''rule_based''"
proof (intro impI, elim conjE)
  assume tr: "train_models sk pd now st eng training_data = Inr (summary, eng', st')"
    and mild: "list_all (\<lambda>r. \<not> is_severe r \<and> required_hospitalization r \<noteq> Some True)
                 training_data"
  from train_models_Inr [OF tr] obtain X y Xn sc det clf where
    y: "risk_labels training_data = Inr y"
    and c: "classifier_fit sk Xn y = Inr clf"
    and e: "eng' = \<lparr>anomaly_detector = Some det, risk_classifier = Some clf, scaler = sc\<rparr>"
    by blast
  from train_models_scaler [OF tr] obtain p where p: "scaler eng' = Some p" "n_features_in p = 7"
    by blast
  from y mild have "\<not> list_ex (\<lambda>b. b) y"
    by (auto simp: risk_labels_def is_severe_def list_ex_iff list_all_iff split: if_splits)
  moreover from c obtain n where "clf = ClassifierFitted n Xn y"
    by (auto simp: classifier_fit_def split: list.splits if_splits option.splits)
  ultimately have fail: "isl (ml_risk sk eng' M)" for M
    using ml_risk_single_class [of eng' n Xn y sk M] e by simp
  obtain M where M: "scaler_transform (scaler eng') [risk_features e] = Inr M"
    using p by (simp add: scaler_transform_def risk_features_length)
  from fail [of M] obtain err where "ml_risk sk eng' M = Inl err"
    by (cases "ml_risk sk eng' M") auto
  with M have "predict_risk_score sk eng' e = Inr (rule_based_assessment e)"
    by (simp add: predict_risk_score_def bind_err_def)
  then show "predict_risk_score sk eng' e = Inr (rule_based_assessment e)
       \<and> scoring_method (rule_based_assessment e) = Some ''rule_based''"
    by (simp add: rule_based_assessment_def Let_def)
qed

theorem train_single_class_falls_back_witness:
  "\<exists>summary eng' st'.
      train_models demo_sklearn demo_pandas 0 empty_store fresh_engine
        [demo_event ''mild'' 1, demo_event ''moderate'' 2] = Inr (summary, eng', st')
      \<and> predict_risk_score demo_sklearn eng' (demo_event ''mild'' 1)
          = Inr (rule_based_assessment (demo_event ''mild'' 1))
      \<and> scoring_method (rule_based_assessment (demo_event ''mild'' 1)) = Some ''rule_based''"
proof -
  let ?data = "[demo_event ''mild'' 1, demo_event ''moderate'' 2]"
  have "\<not> isl (train_models demo_sklearn demo_pandas 0 empty_store fresh_engine ?data)"
    by code_simp
  then obtain summary eng' st' where
    tr: "train_models demo_sklearn demo_pandas 0 empty_store fresh_engine ?data = Inr (summary, eng', st')"
    by (cases "train_models demo_sklearn demo_pandas 0 empty_store fresh_engine ?data") auto
  have mild: "list_all (\<lambda>r. \<not> is_severe r \<and> required_hospitalization r \<noteq> Some True) ?data"
    by (simp add: is_severe_def demo_event_def)
  show ?thesis
    using train_single_class_falls_back [where sk = demo_sklearn and pd = demo_pandas and now = 0
        and st = empty_store and eng = fresh_engine and training_data = ?data
        and summary = summary and eng' = eng' and st' = st'
        and e = "demo_event ''mild'' 1"] tr mild
    by blast
qed


text \<open>
  The two failures above are the only ones of their kind.  Once the scaler has been
  fitted on seven columns, \<open>predict_risk_score\<close> returns for every event, with the
  rule-based result or a learned one.  After a training whose labels contain both
  classes, it returns a learned result, with a confidence and without the
  \<open>rule_based\<close> tag.
\<close>

lemma predict_risk_score_fitted_scaler:
  assumes "scaler eng = Some p" "n_features_in p = 7"
  shows "\<exists>r. predict_risk_score sk eng e = Inr r
           \<and> (r = rule_based_assessment e \<or> scoring_method r = None)"
proof -
  obtain M where M: "scaler_transform (scaler eng) [risk_features e] = Inr M"
    using assms by (simp add: scaler_transform_def risk_features_length)
  show ?thesis
  proof (cases "ml_risk sk eng M")
    case (Inl err)
    with M show ?thesis
      by (simp add: predict_risk_score_def bind_err_def)
  next
    case (Inr r)
    then have "scoring_method r = None"
      by (auto simp: ml_risk_def bind_err_Inr)
    with M Inr show ?thesis
      by (simp add: predict_risk_score_def bind_err_def)
  qed
qed

lemma risk_labels_Inr:
  "risk_labels df = Inr y \<Longrightarrow>
     y = map (\<lambda>r. is_severe r \<or> required_hospitalization r = Some True) df"
  by (simp add: risk_labels_def is_severe_def disj_assoc split: if_splits)

lemma train_two_classes_ml_path:
  assumes tr: "train_models sk pd now st eng training_data = Inr (summary, eng', st')"
    and pos: "list_ex (\<lambda>r. is_severe r \<or> required_hospitalization r = Some True) training_data"
    and neg: "list_ex (\<lambda>r. \<not> (is_severe r \<or> required_hospitalization r = Some True)) training_data"
  shows "\<exists>r. predict_risk_score sk eng' e = Inr r \<and> scoring_method r = None
           \<and> confidence r \<noteq> None"
proof -
  from train_models_Inr [OF tr] obtain X y Xn sc det clf where
    X: "extract_event_features pd now training_data = Inr X"
    and y: "risk_labels training_data = Inr y"
    and f: "scaler_fit_transform sk X = Inr (Xn, sc)"
    and c: "classifier_fit sk Xn y = Inr clf"
    and e: "eng' = \<lparr>anomaly_detector = Some det, risk_classifier = Some clf, scaler = sc\<rparr>"
    by blast
  from scaler_fit_transform_Inr [OF f] obtain p where
    p: "sc = Some p" "X \<noteq> []" "n_features_in p = length (hd X)"
      "length (mean_of p) = n_features_in p" "length (scale_of p) = n_features_in p"
      "Xn = map (\<lambda>row. map scale_value (zip row (zip (mean_of p) (scale_of p)))) X"
    by blast
  from extract_event_features_shape [OF X] p(2) have hd7: "length (hd X) = 7"
    by (cases X) simp_all
  from p(2) obtain r0 rs where X0: "X = r0 # rs"
    by (cases X) auto
  with hd7 have r0: "length r0 = 7"
    by simp
  define row where "row = map scale_value (zip r0 (zip (mean_of p) (scale_of p)))"
  define rest where "rest = map (\<lambda>row. map scale_value (zip row (zip (mean_of p) (scale_of p)))) rs"
  have Xn: "Xn = row # rest"
    unfolding row_def rest_def using p(6) X0 by simp
  have "length row = 7"
    unfolding row_def using r0 p(3,4,5) hd7 by simp
  with c Xn have clf: "clf = ClassifierFitted 7 Xn y"
    by (auto simp: classifier_fit_def split: if_splits option.splits)
  from pos neg have both: "list_ex (\<lambda>b. b) y \<and> list_ex (\<lambda>b. \<not> b) y"
    unfolding risk_labels_Inr [OF y] list_ex_iff by (simp add: Bex_def)
  let ?M = "[map scale_value (zip (risk_features e) (zip (mean_of p) (scale_of p)))]"
  have M: "scaler_transform (scaler eng') [risk_features e] = Inr ?M"
    using e p hd7 by (simp add: scaler_transform_def risk_features_length)
  have len: "length (map scale_value (zip (risk_features e) (zip (mean_of p) (scale_of p)))) = 7"
    using p hd7 by (simp add: risk_features_length)
  have "predict_proba sk clf ?M
      = Inr [[1 - forest_proba sk Xn y (hd ?M), forest_proba sk Xn y (hd ?M)]]"
    using clf both len by (simp add: predict_proba_def class_probabilities_def)
  then obtain r where r: "ml_risk sk eng' ?M = Inr r" "scoring_method r = None"
      "confidence r \<noteq> None"
    using e by (simp add: ml_risk_def bind_err_def index_def)
  with M show ?thesis
    by (simp add: predict_risk_score_def bind_err_def)
qed

subsection \<open>The anomaly report\<close>

lemma collect_anomalies_length:
  "collect_anomalies events idx ps = Inr found \<Longrightarrow>
     length found = length (filter (\<lambda>(p, s). p = - 1) ps) \<and> length found \<le> length events - idx"
proof (induction events idx ps arbitrary: found rule: collect_anomalies.induct)
  case (1 events idx)
  then show ?case by simp
next
  case (2 events idx prediction score rest)
  show ?case
  proof (cases "prediction = - 1")
    case True
    with "2.prems" obtain ev more where
      ev: "index events idx = Inr ev"
      and more: "collect_anomalies events (Suc idx) rest = Inr more"
      and found: "length found = Suc (length more)"
      by (auto simp: bind_err_Inr)
    from ev have "idx < length events"
      by (simp add: index_def split: if_splits)
    with "2.IH"(1) [OF True more] found True show ?thesis
      by auto
  next
    case False
    with "2.prems" have "collect_anomalies events (Suc idx) rest = Inr found"
      by simp
    from "2.IH"(2) [OF False this] False show ?thesis
      by auto
  qed
qed

lemma length_filter_zip:
  "length ps = length ss \<Longrightarrow>
     length (filter (\<lambda>(p, s). P p) (zip ps ss)) = length (filter P ps)"
  by (induction ps ss rule: list_induct2) auto

lemma detect_anomalies_Inr:
  assumes "detect_anomalies sk pd now eng events = Inr (rep, eng')"
    and "20 \<le> length events"
  shows "\<exists>features Xn sc found.
           extract_event_features pd now events = Inr features
           \<and> scaler_fit_transform sk features = Inr (Xn, sc)
           \<and> collect_anomalies events 0
                (zip (iforest_predict sk Xn Xn) (iforest_score_samples sk Xn Xn)) = Inr found
           \<and> rep = \<lparr>anomalies = take 10 (sort_key anomaly_score found),
                    anom_message = None,
                    total_events = Some (length events),
                    anomalies_detected = Some (length found),
                    anomaly_rate = Some (round3 (float_div (length found) (length events))),
                    anom_timestamp = Some now\<rparr>"
  using assms
  by (auto simp: detect_anomalies_def bind_err_Inr iforest_fit_predict_def iforest_fit_def
      score_samples_def split: option.splits prod.splits)

text \<open>
  C7.  Whenever \<open>detect_anomalies\<close> returns, in particular on a batch of at least 20
  records, the list of anomalies has at most 10 entries and is sorted in ascending order
  of anomaly score.
\<close>

text \<open>
  C7.  Whenever \<open>detect_anomalies\<close> returns, in particular on a batch of at least 20
  records, the list of anomalies has at most 10 entries and is sorted in ascending order
  of anomaly score.
\<close>

theorem anomalies_sorted_top10:
  "detect_anomalies sk pd now eng events = Inr (rep, eng')
   \<longrightarrow> length (anomalies rep) \<le> 10 \<and> sorted (map anomaly_score (anomalies rep))"
proof
  assume d: "detect_anomalies sk pd now eng events = Inr (rep, eng')"
  show "length (anomalies rep) \<le> 10 \<and> sorted (map anomaly_score (anomalies rep))"
  proof (cases "length events < 20")
    case True
    with d show ?thesis
      by (auto simp: detect_anomalies_def)
  next
    case False
    then have "20 \<le> length events" by simp
    from detect_anomalies_Inr [OF d this] obtain found where
      "anomalies rep = take 10 (sort_key anomaly_score found)"
      by auto
    moreover have "sorted (take 10 (map anomaly_score (sort_key anomaly_score found)))"
      by (rule sorted_wrt_take) simp
    then have "sorted (map anomaly_score (take 10 (sort_key anomaly_score found)))"
      by (simp add: take_map)
    ultimately show ?thesis by simp
  qed
qed

theorem anomalies_sorted_top10_witness:
  "20 \<le> length (demo_batch 12 9)
   \<and> (\<exists>rep eng'. detect_anomalies demo_sklearn demo_pandas 0 fresh_engine (demo_batch 12 9) = Inr (rep, eng')
         \<and> length (anomalies rep) \<le> 10 \<and> sorted (map anomaly_score (anomalies rep)))"
proof -
  let ?d = "detect_anomalies demo_sklearn demo_pandas 0 fresh_engine (demo_batch 12 9)"
  have "\<not> isl ?d"
    by code_simp
  then obtain rep eng' where d: "?d = Inr (rep, eng')"
    by (cases ?d) auto
  have "20 \<le> length (demo_batch 12 9)"
    by (simp add: demo_batch_def)
  then show ?thesis
    using anomalies_sorted_top10 [where sk = demo_sklearn and pd = demo_pandas and now = 0 and eng = fresh_engine
        and events = "demo_batch 12 9" and rep = rep and eng' = eng'] d
    by blast
qed

text \<open>
  C10 as stated: \<open>anomaly_rate\<close> equals the number of flagged records divided by the
  number of records.  On 21 records of which 2 are flagged the rate reported is 0.095,
  not 2/21: the quotient is rounded to three decimals.
\<close>

theorem anomaly_rate_unrounded_counterexample:
  "map_sum id (\<lambda>(rep, eng'). (total_events rep, anomalies_detected rep, anomaly_rate rep))
       (detect_anomalies demo_sklearn demo_pandas 0 fresh_engine (demo_batch 2 19))
     = Inr (Some 21, Some 2, Some (95 / 1000))
   \<and> (95 / 1000 :: real) \<noteq> 2 / 21"
  by code_simp

text \<open>
  C10, amended.  On a batch of at least 20 records, with an outlier model that returns
  one label and one score per record, \<open>anomalies_detected\<close> is the number of labels
  \<open>-1\<close> that the model gives on the normalised feature matrix of the batch, counted
  before the truncation, so the list returned has \<open>min 10\<close> of it entries;
  \<open>total_events\<close> is the size of the batch; and \<open>anomaly_rate\<close> is
  \<^verbatim>\<open>round\<close> to three decimals of the double quotient of the two, a value in
  \<open>[0, 1]\<close>.  With 7 of 80 records flagged the rate is 0.087: the double of 7/80 lies
  below 0.0875.
\<close>

theorem anomaly_counts_and_rate:
  "detect_anomalies sk pd now eng events = Inr (rep, eng')
   \<and> 20 \<le> length events
   \<and> (\<forall>X. length (iforest_predict sk X X) = length X
          \<and> length (iforest_score_samples sk X X) = length X)
   \<longrightarrow> (\<exists>features Xn sc k.
          extract_event_features pd now events = Inr features
          \<and> scaler_fit_transform sk features = Inr (Xn, sc)
          \<and> k = length (filter (\<lambda>p. p = - 1) (iforest_predict sk Xn Xn))
          \<and> anomalies_detected rep = Some k
          \<and> total_events rep = Some (length events)
          \<and> length (anomalies rep) = min 10 k
          \<and> anomaly_rate rep = Some (round3 (float_div k (length events)))
          \<and> 0 \<le> round3 (float_div k (length events))
          \<and> round3 (float_div k (length events)) \<le> 1)"
proof (intro impI, elim conjE)
  assume d: "detect_anomalies sk pd now eng events = Inr (rep, eng')"
    and n: "20 \<le> length events"
    and sk: "\<forall>X. length (iforest_predict sk X X) = length X
          \<and> length (iforest_score_samples sk X X) = length X"
  from detect_anomalies_Inr [OF d n] obtain features Xn sc found where
    f: "extract_event_features pd now events = Inr features"
    and t: "scaler_fit_transform sk features = Inr (Xn, sc)"
    and c: "collect_anomalies events 0
              (zip (iforest_predict sk Xn Xn) (iforest_score_samples sk Xn Xn)) = Inr found"
    and rep: "rep = \<lparr>anomalies = take 10 (sort_key anomaly_score found),
                    anom_message = None,
                    total_events = Some (length events),
                    anomalies_detected = Some (length found),
                    anomaly_rate = Some (round3 (float_div (length found) (length events))),
                    anom_timestamp = Some now\<rparr>"
    by blast
  let ?k = "length (filter (\<lambda>p. p = - 1) (iforest_predict sk Xn Xn))"
  have k: "length found = ?k"
    using collect_anomalies_length [OF c] sk
      length_filter_zip [of "iforest_predict sk Xn Xn" "iforest_score_samples sk Xn Xn"
        "\<lambda>p. p = - 1"]
    by simp
  have "length found \<le> length events"
    using collect_anomalies_length [OF c] by simp
  then have le: "?k \<le> length events"
    using k by simp
  have pos: "0 < length events"
    using n by linarith
  have r: "0 \<le> round3 (float_div ?k (length events))
      \<and> round3 (float_div ?k (length events)) \<le> 1"
    using le pos by (rule rounded_rate_unit)
  show "\<exists>features Xn sc k.
          extract_event_features pd now events = Inr features
          \<and> scaler_fit_transform sk features = Inr (Xn, sc)
          \<and> k = length (filter (\<lambda>p. p = - 1) (iforest_predict sk Xn Xn))
          \<and> anomalies_detected rep = Some k
          \<and> total_events rep = Some (length events)
          \<and> length (anomalies rep) = min 10 k
          \<and> anomaly_rate rep = Some (round3 (float_div k (length events)))
          \<and> 0 \<le> round3 (float_div k (length events))
          \<and> round3 (float_div k (length events)) \<le> 1"
    using f t k r rep
    by (intro exI [of _ features] exI [of _ Xn] exI [of _ sc] exI [of _ ?k])
       (simp add: min.commute)
qed

theorem anomaly_counts_and_rate_witness:
  "20 \<le> length (demo_batch 12 9)
   \<and> (\<exists>rep eng' k. detect_anomalies demo_sklearn demo_pandas 0 fresh_engine (demo_batch 12 9)
           = Inr (rep, eng')
         \<and> anomalies_detected rep = Some k
         \<and> total_events rep = Some (length (demo_batch 12 9))
         \<and> length (anomalies rep) = min 10 k
         \<and> anomaly_rate rep = Some (round3 (float_div k (length (demo_batch 12 9))))
         \<and> 0 \<le> round3 (float_div k (length (demo_batch 12 9)))
         \<and> round3 (float_div k (length (demo_batch 12 9))) \<le> 1)
   \<and> map_sum id (\<lambda>(rep, eng'). (anomalies_detected rep, length (anomalies rep), anomaly_rate rep))
         (detect_anomalies demo_sklearn demo_pandas 0 fresh_engine (demo_batch 12 9))
       = Inr (Some 12, 10, Some (571 / 1000))
   \<and> map_sum id (\<lambda>(rep, eng'). (anomalies_detected rep, length (anomalies rep), anomaly_rate rep))
         (detect_anomalies demo_sklearn demo_pandas 0 fresh_engine (demo_batch 7 73))
       = Inr (Some 7, 7, Some (87 / 1000))"
proof -
  let ?d = "detect_anomalies demo_sklearn demo_pandas 0 fresh_engine (demo_batch 12 9)"
  have "\<not> isl ?d"
    by code_simp
  then obtain rep eng' where d: "?d = Inr (rep, eng')"
    by (cases ?d) auto
  have n: "20 \<le> length (demo_batch 12 9)"
    by (simp add: demo_batch_def)
  have sk: "\<forall>X. length (iforest_predict demo_sklearn X X) = length X
          \<and> length (iforest_score_samples demo_sklearn X X) = length X"
    by (simp add: demo_sklearn_def)
  have ev: "map_sum id (\<lambda>(rep, eng'). (anomalies_detected rep, length (anomalies rep), anomaly_rate rep)) ?d
       = Inr (Some 12, 10, Some (571 / 1000))"
    by code_simp
  have tie: "map_sum id (\<lambda>(rep, eng'). (anomalies_detected rep, length (anomalies rep), anomaly_rate rep))
         (detect_anomalies demo_sklearn demo_pandas 0 fresh_engine (demo_batch 7 73))
       = Inr (Some 7, 7, Some (87 / 1000))"
    by code_simp
  from anomaly_counts_and_rate [where sk = demo_sklearn and pd = demo_pandas and now = 0
      and eng = fresh_engine and events = "demo_batch 12 9" and rep = rep and eng' = eng'] d n sk
  obtain k where
    "anomalies_detected rep = Some k
     \<and> total_events rep = Some (length (demo_batch 12 9))
     \<and> length (anomalies rep) = min 10 k
     \<and> anomaly_rate rep = Some (round3 (float_div k (length (demo_batch 12 9))))
     \<and> 0 \<le> round3 (float_div k (length (demo_batch 12 9)))
     \<and> round3 (float_div k (length (demo_batch 12 9))) \<le> 1"
    by blast
  with d n ev tie show ?thesis
    by blast
qed

subsection \<open>Batches below the minimum size\<close>

lemma patterns_extraction_error:
  assumes "10 \<le> length events" "extract_event_features pd now events = Inl err"
  shows "detect_adverse_event_patterns sk pd analyze now eng events = Inl err"
proof -
  have "\<not> length events < 10"
    using assms(1) by simp
  then show ?thesis
    by (simp only: detect_adverse_event_patterns_def if_False assms(2) bind_err_simps)
qed

lemma patterns_report:
  assumes "10 \<le> length events"
    and "detect_adverse_event_patterns sk pd analyze now eng events = Inr (rp, ep)"
  shows "\<exists>features Xn sc clusters.
               extract_event_features pd now events = Inr features
               \<and> scaler_fit_transform sk features = Inr (Xn, sc)
               \<and> dbscan_fit_predict sk Xn = Inr clusters
               \<and> map_err (\<lambda>c. analyze (cluster_events events clusters c) c)
                     (cluster_ids clusters) = Inr (patterns rp)
               \<and> pat_message rp = None
               \<and> total_clusters rp
                   = Some (length (remdups clusters) - (if - 1 \<in> set clusters then 1 else 0))
               \<and> noise_points rp = Some (length (filter (\<lambda>c. c = - 1) clusters))
               \<and> pat_timestamp rp = Some now
               \<and> ep = eng\<lparr>scaler := sc\<rparr>"
proof -
  have small: "\<not> length events < 10"
    using assms(1) by simp
  note d = assms(2) [unfolded detect_adverse_event_patterns_def]
  obtain features where f: "extract_event_features pd now events = Inr features"
  proof (cases "extract_event_features pd now events")
    case (Inl e)
    from patterns_extraction_error [OF assms(1) this, of sk analyze eng] assms(2)
    show ?thesis by simp
  qed
  obtain Xn sc where t: "scaler_fit_transform sk features = Inr (Xn, sc)"
  proof (cases "scaler_fit_transform sk features")
    case (Inl e)
    with d have False
      by (simp only: small if_False f bind_err_simps sum.distinct)
    then show ?thesis ..
  next
    case (Inr v)
    with that show ?thesis
      by (cases v) simp
  qed
  obtain clusters where c: "dbscan_fit_predict sk Xn = Inr clusters"
  proof (cases "dbscan_fit_predict sk Xn")
    case (Inl e)
    with d have False
      by (simp only: small if_False f t bind_err_simps case_prod_conv sum.distinct)
    then show ?thesis ..
  qed
  have len: "\<not> length clusters \<noteq> length events"
  proof
    assume "length clusters \<noteq> length events"
    with d show False
      by (simp only: small if_False if_True not_False_eq_True f t c bind_err_simps
          case_prod_conv sum.distinct)
  qed
  obtain found where m: "map_err (\<lambda>cluster_id.
                      analyze (cluster_events events clusters cluster_id) cluster_id)
                    (cluster_ids clusters) = Inr found"
  proof (cases "map_err (\<lambda>cluster_id.
                      analyze (cluster_events events clusters cluster_id) cluster_id)
                    (cluster_ids clusters)")
    case (Inl e)
    with d have False
      by (simp only: small len if_False f t c bind_err_simps case_prod_conv sum.distinct)
    then show ?thesis ..
  qed
  from d have "Inr (\<lparr>patterns = found,
                pat_message = None,
                total_clusters = Some (length (remdups clusters)
                                       - (if - 1 \<in> set clusters then 1 else 0)),
                noise_points = Some (length (filter (\<lambda>c. c = - 1) clusters)),
                pat_timestamp = Some now\<rparr>,
               eng\<lparr>scaler := sc\<rparr>) = (Inr (rp, ep) :: error + ('a pattern_report \<times> engine))"
    by (simp only: small len if_False f t c m bind_err_simps case_prod_conv)
  then have "rp = \<lparr>patterns = found,
                pat_message = None,
                total_clusters = Some (length (remdups clusters)
                                       - (if - 1 \<in> set clusters then 1 else 0)),
                noise_points = Some (length (filter (\<lambda>c. c = - 1) clusters)),
                pat_timestamp = Some now\<rparr>" "ep = eng\<lparr>scaler := sc\<rparr>"
    by simp_all
  with f t c m show ?thesis
    by (intro exI [of _ features] exI [of _ Xn] exI [of _ sc] exI [of _ clusters]) simp
qed

lemma signals_report:
  assumes "5 \<le> length events" "detect_safety_signals pd now medicine events = Inr rs"
  shows "sig_message rs = None
            \<and> sig_medicine_id rs = Some medicine
            \<and> signal_detected rs = signal_condition now events
            \<and> signal_type rs
                = (if signal_condition now events then Some (signal_tier now events) else None)
            \<and> recommendation rs
                = (if signal_condition now events
                   then Some (generate_signal_recommendation (signal_tier now events)) else None)
            \<and> (\<exists>m. metrics rs = Some m
                  \<and> severe_event_rate m = round3 (rate (severe_fraction events))
                  \<and> hospitalization_rate m = round3 (rate (hospitalization_fraction events))
                  \<and> death_rate m = round3 (rate (death_fraction events))
                  \<and> recent_severe_rate m
                      = (if signal_condition now events
                         then Some (round3 (rate (recent_severe_fraction now events))) else None)
                  \<and> sig_total_events m = length events)"
  using assms
  by (auto simp: detect_safety_signals_def split: if_splits)

lemma signals_returns:
  assumes "5 \<le> length events" "has_column severity events"
    "has_column required_hospitalization events" "has_column outcome events"
    "has_column event_date events" "\<not> list_ex is_unparsable events"
    "\<not> list_ex is_aware events"
  shows "\<exists>r. detect_safety_signals pd now medicine events = Inr r"
  using assms
  by (simp add: detect_safety_signals_def)

lemma anomalies_extraction_error:
  assumes "20 \<le> length events" "extract_event_features pd now events = Inl err"
  shows "detect_anomalies sk pd now eng events = Inl err"
proof -
  have "\<not> length events < 20"
    using assms(1) by simp
  then show ?thesis
    by (simp only: detect_anomalies_def if_False assms(2) bind_err_simps)
qed

lemma anomalies_report:
  assumes "20 \<le> length events" "detect_anomalies sk pd now eng events = Inr (ra, ea)"
  shows "\<exists>features Xn sc found.
               extract_event_features pd now events = Inr features
               \<and> scaler_fit_transform sk features = Inr (Xn, sc)
               \<and> collect_anomalies events 0
                     (zip (iforest_predict sk Xn Xn) (iforest_score_samples sk Xn Xn)) = Inr found
               \<and> anomalies ra = take 10 (sort_key anomaly_score found)
               \<and> anom_message ra = None
               \<and> total_events ra = Some (length events)
               \<and> anomalies_detected ra = Some (length found)
               \<and> anomaly_rate ra = Some (round3 (float_div (length found) (length events)))
               \<and> anom_timestamp ra = Some now
               \<and> ea = eng\<lparr>anomaly_detector := Some (IForestFitted Xn), scaler := sc\<rparr>"
  using assms
  by (auto simp: detect_anomalies_def bind_err_Inr iforest_fit_predict_def iforest_fit_def
      score_samples_def split: option.splits prod.splits)

text \<open>
  C8.  Below the minimum size (10 records for patterns, 5 for signals, 20 for anomalies)
  each operation returns its insufficient-data value, with an empty list of patterns or
  anomalies and no signal, and raises nothing.  From the minimum size on it goes on with
  the computation.  Pattern and anomaly detection extract the features of the batch (an
  error of the extraction is the error of the operation), and what they return is the
  report computed from the normalised features: the summaries of the clusters found by
  the density clustering with the counts of clusters and of noise points, or the ten
  lowest-scored records flagged by the outlier model with the count and the rate.  What
  signal detection returns holds the four rates of the batch, the decision taken on
  them and, when a signal is declared, its tier and recommendation; it returns whenever
  the four columns exist and every date is parsable and without offset.
\<close>

theorem insufficient_data_results:
  "(length events < 10 \<longrightarrow>
      detect_adverse_event_patterns sk pd analyze now eng events
        = Inr (\<lparr>patterns = [], pat_message = Some ''Insufficient data for pattern detection'',
                total_clusters = None, noise_points = None, pat_timestamp = None\<rparr>, eng))
   \<and> (10 \<le> length events \<and> extract_event_features pd now events = Inl err
        \<longrightarrow> detect_adverse_event_patterns sk pd analyze now eng events = Inl err)
   \<and> (10 \<le> length events
        \<and> detect_adverse_event_patterns sk pd analyze now eng events = Inr (rp, ep)
        \<longrightarrow> (\<exists>features Xn sc clusters.
               extract_event_features pd now events = Inr features
               \<and> scaler_fit_transform sk features = Inr (Xn, sc)
               \<and> dbscan_fit_predict sk Xn = Inr clusters
               \<and> map_err (\<lambda>c. analyze (cluster_events events clusters c) c)
                     (cluster_ids clusters) = Inr (patterns rp)
               \<and> pat_message rp = None
               \<and> total_clusters rp
                   = Some (length (remdups clusters) - (if - 1 \<in> set clusters then 1 else 0))
               \<and> noise_points rp = Some (length (filter (\<lambda>c. c = - 1) clusters))
               \<and> pat_timestamp rp = Some now
               \<and> ep = eng\<lparr>scaler := sc\<rparr>))
   \<and> (length events < 5 \<longrightarrow>
        detect_safety_signals pd now medicine events
          = Inr \<lparr>signal_detected = False,
                 sig_message = Some ''Insufficient data for signal detection'',
                 sig_medicine_id = None, signal_type = None, metrics = None,
                 recommendation = None, sig_timestamp = None\<rparr>)
   \<and> (5 \<le> length events \<and> detect_safety_signals pd now medicine events = Inr rs
        \<longrightarrow> sig_message rs = None
            \<and> sig_medicine_id rs = Some medicine
            \<and> signal_detected rs = signal_condition now events
            \<and> signal_type rs
                = (if signal_condition now events then Some (signal_tier now events) else None)
            \<and> recommendation rs
                = (if signal_condition now events
                   then Some (generate_signal_recommendation (signal_tier now events)) else None)
            \<and> (\<exists>m. metrics rs = Some m
                  \<and> severe_event_rate m = round3 (rate (severe_fraction events))
                  \<and> hospitalization_rate m = round3 (rate (hospitalization_fraction events))
                  \<and> death_rate m = round3 (rate (death_fraction events))
                  \<and> recent_severe_rate m
                      = (if signal_condition now events
                         then Some (round3 (rate (recent_severe_fraction now events))) else None)
                  \<and> sig_total_events m = length events))
   \<and> (5 \<le> length events
        \<and> has_column severity events \<and> has_column required_hospitalization events
        \<and> has_column outcome events \<and> has_column event_date events
        \<and> \<not> list_ex is_unparsable events \<and> \<not> list_ex is_aware events
        \<longrightarrow> (\<exists>r. detect_safety_signals pd now medicine events = Inr r))
   \<and> (length events < 20 \<longrightarrow>
        detect_anomalies sk pd now eng events
          = Inr (\<lparr>anomalies = [], anom_message = Some ''Insufficient data for anomaly detection'',
                  total_events = None, anomalies_detected = None, anomaly_rate = None,
                  anom_timestamp = None\<rparr>, eng))
   \<and> (20 \<le> length events \<and> extract_event_features pd now events = Inl err
        \<longrightarrow> detect_anomalies sk pd now eng events = Inl err)
   \<and> (20 \<le> length events \<and> detect_anomalies sk pd now eng events = Inr (ra, ea)
        \<longrightarrow> (\<exists>features Xn sc found.
               extract_event_features pd now events = Inr features
               \<and> scaler_fit_transform sk features = Inr (Xn, sc)
               \<and> collect_anomalies events 0
                     (zip (iforest_predict sk Xn Xn) (iforest_score_samples sk Xn Xn)) = Inr found
               \<and> anomalies ra = take 10 (sort_key anomaly_score found)
               \<and> anom_message ra = None
               \<and> total_events ra = Some (length events)
               \<and> anomalies_detected ra = Some (length found)
               \<and> anomaly_rate ra = Some (round3 (float_div (length found) (length events)))
               \<and> anom_timestamp ra = Some now
               \<and> ea = eng\<lparr>anomaly_detector := Some (IForestFitted Xn), scaler := sc\<rparr>))"
proof -
  have p_low: "detect_adverse_event_patterns sk pd analyze now eng events
        = Inr (\<lparr>patterns = [], pat_message = Some ''Insufficient data for pattern detection'',
                total_clusters = None, noise_points = None, pat_timestamp = None\<rparr>, eng)"
    if "length events < 10"
    using that by (simp add: detect_adverse_event_patterns_def)
  have s_low: "detect_safety_signals pd now medicine events
          = Inr \<lparr>signal_detected = False,
                 sig_message = Some ''Insufficient data for signal detection'',
                 sig_medicine_id = None, signal_type = None, metrics = None,
                 recommendation = None, sig_timestamp = None\<rparr>"
    if "length events < 5"
    using that by (simp add: detect_safety_signals_def)
  have a_low: "detect_anomalies sk pd now eng events
          = Inr (\<lparr>anomalies = [], anom_message = Some ''Insufficient data for anomaly detection'',
                  total_events = None, anomalies_detected = None, anomaly_rate = None,
                  anom_timestamp = None\<rparr>, eng)"
    if "length events < 20"
    using that by (simp add: detect_anomalies_def)
  have c1: "length events < 10 \<longrightarrow>
      detect_adverse_event_patterns sk pd analyze now eng events
        = Inr (\<lparr>patterns = [], pat_message = Some ''Insufficient data for pattern detection'',
                total_clusters = None, noise_points = None, pat_timestamp = None\<rparr>, eng)"
    using p_low by blast
  have c2: "10 \<le> length events \<and> extract_event_features pd now events = Inl err
        \<longrightarrow> detect_adverse_event_patterns sk pd analyze now eng events = Inl err"
    by (intro impI, elim conjE, rule patterns_extraction_error)
  have c3: "10 \<le> length events
        \<and> detect_adverse_event_patterns sk pd analyze now eng events = Inr (rp, ep)
        \<longrightarrow> (\<exists>features Xn sc clusters.
               extract_event_features pd now events = Inr features
               \<and> scaler_fit_transform sk features = Inr (Xn, sc)
               \<and> dbscan_fit_predict sk Xn = Inr clusters
               \<and> map_err (\<lambda>c. analyze (cluster_events events clusters c) c)
                     (cluster_ids clusters) = Inr (patterns rp)
               \<and> pat_message rp = None
               \<and> total_clusters rp
                   = Some (length (remdups clusters) - (if - 1 \<in> set clusters then 1 else 0))
               \<and> noise_points rp = Some (length (filter (\<lambda>c. c = - 1) clusters))
               \<and> pat_timestamp rp = Some now
               \<and> ep = eng\<lparr>scaler := sc\<rparr>)"
    by (intro impI, elim conjE, rule patterns_report)
  have c4: "length events < 5 \<longrightarrow>
        detect_safety_signals pd now medicine events
          = Inr \<lparr>signal_detected = False,
                 sig_message = Some ''Insufficient data for signal detection'',
                 sig_medicine_id = None, signal_type = None, metrics = None,
                 recommendation = None, sig_timestamp = None\<rparr>"
    using s_low by blast
  have c5: "5 \<le> length events \<and> detect_safety_signals pd now medicine events = Inr rs
        \<longrightarrow> sig_message rs = None
            \<and> sig_medicine_id rs = Some medicine
            \<and> signal_detected rs = signal_condition now events
            \<and> signal_type rs
                = (if signal_condition now events then Some (signal_tier now events) else None)
            \<and> recommendation rs
                = (if signal_condition now events
                   then Some (generate_signal_recommendation (signal_tier now events)) else None)
            \<and> (\<exists>m. metrics rs = Some m
                  \<and> severe_event_rate m = round3 (rate (severe_fraction events))
                  \<and> hospitalization_rate m = round3 (rate (hospitalization_fraction events))
                  \<and> death_rate m = round3 (rate (death_fraction events))
                  \<and> recent_severe_rate m
                      = (if signal_condition now events
                         then Some (round3 (rate (recent_severe_fraction now events))) else None)
                  \<and> sig_total_events m = length events)"
    by (intro impI, elim conjE, rule signals_report)
  have c6: "5 \<le> length events
        \<and> has_column severity events \<and> has_column required_hospitalization events
        \<and> has_column outcome events \<and> has_column event_date events
        \<and> \<not> list_ex is_unparsable events \<and> \<not> list_ex is_aware events
        \<longrightarrow> (\<exists>r. detect_safety_signals pd now medicine events = Inr r)"
    by (intro impI, elim conjE, rule signals_returns)
  have c7: "length events < 20 \<longrightarrow>
        detect_anomalies sk pd now eng events
          = Inr (\<lparr>anomalies = [], anom_message = Some ''Insufficient data for anomaly detection'',
                  total_events = None, anomalies_detected = None, anomaly_rate = None,
                  anom_timestamp = None\<rparr>, eng)"
    using a_low by blast
  have c8: "20 \<le> length events \<and> extract_event_features pd now events = Inl err
        \<longrightarrow> detect_anomalies sk pd now eng events = Inl err"
    by (intro impI, elim conjE, rule anomalies_extraction_error)
  have c9: "20 \<le> length events \<and> detect_anomalies sk pd now eng events = Inr (ra, ea)
        \<longrightarrow> (\<exists>features Xn sc found.
               extract_event_features pd now events = Inr features
               \<and> scaler_fit_transform sk features = Inr (Xn, sc)
               \<and> collect_anomalies events 0
                     (zip (iforest_predict sk Xn Xn) (iforest_score_samples sk Xn Xn)) = Inr found
               \<and> anomalies ra = take 10 (sort_key anomaly_score found)
               \<and> anom_message ra = None
               \<and> total_events ra = Some (length events)
               \<and> anomalies_detected ra = Some (length found)
               \<and> anomaly_rate ra = Some (round3 (float_div (length found) (length events)))
               \<and> anom_timestamp ra = Some now
               \<and> ea = eng\<lparr>anomaly_detector := Some (IForestFitted Xn), scaler := sc\<rparr>)"
    by (intro impI, elim conjE, rule anomalies_report)
  from c1 c2 c3 c4 c5 c6 c7 c8 c9 show ?thesis
    by (intro conjI)
qed

theorem insufficient_data_results_witness:
  "detect_adverse_event_patterns demo_sklearn demo_pandas (\<lambda>evs c. Inr (c, length evs)) 0
       fresh_engine (demo_batch 1 8)
     = Inr (\<lparr>patterns = [], pat_message = Some ''Insufficient data for pattern detection'',
             total_clusters = None, noise_points = None, pat_timestamp = None\<rparr>, fresh_engine)
   \<and> (\<exists>rp ep features. detect_adverse_event_patterns demo_sklearn demo_pandas
                 (\<lambda>evs c. Inr (c, length evs)) 0 fresh_engine (demo_batch 1 9) = Inr (rp, ep)
          \<and> extract_event_features demo_pandas 0 (demo_batch 1 9) = Inr features
          \<and> pat_message rp = None \<and> pat_timestamp rp = Some 0
          \<and> patterns rp = [(0, 9)] \<and> total_clusters rp = Some 1 \<and> noise_points rp = Some 1)
   \<and> detect_safety_signals demo_pandas 0 ''M1'' (demo_batch 1 3)
     = Inr \<lparr>signal_detected = False,
            sig_message = Some ''Insufficient data for signal detection'',
            sig_medicine_id = None, signal_type = None, metrics = None,
            recommendation = None, sig_timestamp = None\<rparr>
   \<and> (\<exists>rs. detect_safety_signals demo_pandas 0 ''M1'' (demo_batch 1 4) = Inr rs
          \<and> sig_message rs = None \<and> sig_medicine_id rs = Some ''M1''
          \<and> signal_detected rs = signal_condition 0 (demo_batch 1 4)
          \<and> signal_detected rs \<and> signal_type rs = Some ''low'')
   \<and> detect_anomalies demo_sklearn demo_pandas 0 fresh_engine (demo_batch 2 17)
     = Inr (\<lparr>anomalies = [], anom_message = Some ''Insufficient data for anomaly detection'',
             total_events = None, anomalies_detected = None, anomaly_rate = None,
             anom_timestamp = None\<rparr>, fresh_engine)
   \<and> (\<exists>ra ea features. detect_anomalies demo_sklearn demo_pandas 0 fresh_engine (demo_batch 2 18)
             = Inr (ra, ea)
          \<and> extract_event_features demo_pandas 0 (demo_batch 2 18) = Inr features
          \<and> anom_message ra = None \<and> total_events ra = Some 20
          \<and> anomalies_detected ra = Some 2 \<and> anomaly_rate ra = Some (1 / 10))"
proof -
  let ?an = "\<lambda>evs c. Inr (c, length evs) :: error + int \<times> nat"
  let ?p = "detect_adverse_event_patterns demo_sklearn demo_pandas ?an 0 fresh_engine
              (demo_batch 1 9)"
  let ?s = "detect_safety_signals demo_pandas 0 ''M1'' (demo_batch 1 4)"
  let ?a = "detect_anomalies demo_sklearn demo_pandas 0 fresh_engine (demo_batch 2 18)"
  have len: "length (demo_batch k m) = k + m" for k m
    by (simp add: demo_batch_def)
  note t = insufficient_data_results [where sk = demo_sklearn and pd = demo_pandas
      and analyze = ?an and now = 0 and eng = fresh_engine and medicine = "''M1''"]
  note c1 = t [THEN conjunct1, THEN mp]
  note c3 = t [THEN conjunct2, THEN conjunct2, THEN conjunct1, THEN mp]
  note c4 = t [THEN conjunct2, THEN conjunct2, THEN conjunct2, THEN conjunct1, THEN mp]
  note c5 = t [THEN conjunct2, THEN conjunct2, THEN conjunct2, THEN conjunct2, THEN conjunct1,
      THEN mp]
  note c7 = t [THEN conjunct2, THEN conjunct2, THEN conjunct2, THEN conjunct2, THEN conjunct2,
      THEN conjunct2, THEN conjunct1, THEN mp]
  note c9 = t [THEN conjunct2, THEN conjunct2, THEN conjunct2, THEN conjunct2, THEN conjunct2,
      THEN conjunct2, THEN conjunct2, THEN conjunct2, THEN mp]
  have 1: "detect_adverse_event_patterns demo_sklearn demo_pandas ?an 0 fresh_engine
       (demo_batch 1 8)
     = Inr (\<lparr>patterns = [], pat_message = Some ''Insufficient data for pattern detection'',
             total_clusters = None, noise_points = None, pat_timestamp = None\<rparr>, fresh_engine)"
  proof -
    have "length (demo_batch 1 8) < 10" by (simp add: len)
    then show ?thesis by (rule c1)
  qed
  have "\<not> isl ?p" by code_simp
  then obtain rp ep where p: "?p = Inr (rp, ep)"
    by (cases ?p) auto
  have pv: "map_sum id (\<lambda>(r, e). (patterns r, total_clusters r, noise_points r)) ?p
      = Inr ([(0, 9)], Some 1, Some 1)"
    by code_simp
  obtain fp where 2: "extract_event_features demo_pandas 0 (demo_batch 1 9) = Inr fp"
      "pat_message rp = None \<and> pat_timestamp rp = Some 0"
  proof -
    have "10 \<le> length (demo_batch 1 9)" by (simp add: len)
    with p have "10 \<le> length (demo_batch 1 9) \<and> ?p = Inr (rp, ep)" by simp
    from c3 [OF this] that show ?thesis by blast
  qed
  have 3: "detect_safety_signals demo_pandas 0 ''M1'' (demo_batch 1 3)
     = Inr \<lparr>signal_detected = False,
            sig_message = Some ''Insufficient data for signal detection'',
            sig_medicine_id = None, signal_type = None, metrics = None,
            recommendation = None, sig_timestamp = None\<rparr>"
  proof -
    have "length (demo_batch 1 3) < 5" by (simp add: len)
    then show ?thesis by (rule c4)
  qed
  have "\<not> isl ?s" by code_simp
  then obtain rs where s: "?s = Inr rs"
    by (cases ?s) auto
  have sv: "map_sum id (\<lambda>r. (signal_detected r, signal_type r)) ?s = Inr (True, Some ''low'')"
    by code_simp
  have 4: "sig_message rs = None \<and> sig_medicine_id rs = Some ''M1''
          \<and> signal_detected rs = signal_condition 0 (demo_batch 1 4)"
  proof -
    have "5 \<le> length (demo_batch 1 4)" by (simp add: len)
    with s have "5 \<le> length (demo_batch 1 4) \<and> ?s = Inr rs" by simp
    from c5 [OF this] show ?thesis by blast
  qed
  have 5: "detect_anomalies demo_sklearn demo_pandas 0 fresh_engine (demo_batch 2 17)
     = Inr (\<lparr>anomalies = [], anom_message = Some ''Insufficient data for anomaly detection'',
             total_events = None, anomalies_detected = None, anomaly_rate = None,
             anom_timestamp = None\<rparr>, fresh_engine)"
  proof -
    have "length (demo_batch 2 17) < 20" by (simp add: len)
    then show ?thesis by (rule c7)
  qed
  have "\<not> isl ?a" by code_simp
  then obtain ra ea where a: "?a = Inr (ra, ea)"
    by (cases ?a) auto
  have av: "map_sum id (\<lambda>(r, e). (anomalies_detected r, anomaly_rate r)) ?a
      = Inr (Some 2, Some (1 / 10))"
    by code_simp
  obtain fa where 6: "extract_event_features demo_pandas 0 (demo_batch 2 18) = Inr fa"
      "anom_message ra = None \<and> total_events ra = Some 20"
  proof -
    have n: "20 \<le> length (demo_batch 2 18)" "length (demo_batch 2 18) = 20"
      by (simp_all add: len)
    with a have "20 \<le> length (demo_batch 2 18) \<and> ?a = Inr (ra, ea)" by simp
    from c9 [OF this] that n(2) show ?thesis by auto
  qed
  from p pv have 7: "patterns rp = [(0, 9)] \<and> total_clusters rp = Some 1
      \<and> noise_points rp = Some 1"
    by simp
  from s sv have 8: "signal_detected rs \<and> signal_type rs = Some ''low''"
    by simp
  from a av have 9: "anomalies_detected ra = Some 2 \<and> anomaly_rate ra = Some (1 / 10)"
    by simp
  show ?thesis
    using 1 2 3 4 5 6 7 8 9 p s a by blast
qed

subsection \<open>Explanations of anomalies\<close>

text \<open>
  C9.  The claim is that the explanation names the age whenever it deviates by more
  than 20 years from the mean age of the batch.  For a patient of age 0 in a batch of
  mean age 57 the deviation is 57, but the test \<^verbatim>\<open>if event.get('patient_age')\<close>
  is false at 0 and the explanation is the default one; at age 1 the age is named.
\<close>

theorem explain_anomaly_age_zero:
  "explain_anomaly (blank_event\<lparr>patient_age := Some 0\<rparr>)
     (blank_event\<lparr>patient_age := Some 0\<rparr> # replicate 19 (blank_event\<lparr>patient_age := Some 60\<rparr>))
     = ''Statistical outlier''
   \<and> mean_age (blank_event\<lparr>patient_age := Some 0\<rparr>
               # replicate 19 (blank_event\<lparr>patient_age := Some 60\<rparr>)) = 57
   \<and> explain_anomaly (blank_event\<lparr>patient_age := Some 1\<rparr>)
     (blank_event\<lparr>patient_age := Some 1\<rparr> # replicate 19 (blank_event\<lparr>patient_age := Some 60\<rparr>))
     = ''Unusual age (1 vs avg 57)''"
  by code_simp

end
